theory Spec2Isabelle
  imports Complex_Main "HOL-Library.AList"
begin

section \<open>CloudMiner: the Azure Automation session and the script executors\<close>

text \<open>
  A shallow embedding of \<^verbatim>\<open>azure_automation_session.py\<close>, \<^verbatim>\<open>scripts_executor.py\<close>
  and \<^verbatim>\<open>cloud_miner.py\<close>. The program is sequential; everything it does beyond
  computing values is made explicit:
  \<^item> the clock \<^verbatim>\<open>time.time()\<close>, the requests sent, the file system, the UUIDs drawn and
    the commands run are fields of a \<open>world\<close> record that every operation passes on;
  \<^item> the session object's attributes extend that record (there is one session per run,
    and the executors hold a reference to it);
  \<^item> what the outside answers (the server's replies, \<^verbatim>\<open>uuid.uuid4()\<close>, the functions of
    \<^verbatim>\<open>cloudminer.utils\<close>) is a parameter, the record \<open>env\<close>;
  \<^item> every \<^verbatim>\<open>raise\<close> is a value \<open>Inl e\<close> of the result.
  Time is a real number of seconds: \<^verbatim>\<open>time.sleep d\<close> advances the clock by \<open>d\<close>, a request
  by the latency of its reply, and nothing else takes time. Calls to the logger are left
  out.
\<close>

subsection \<open>Constants of \<^verbatim>\<open>azure_automation_session.py\<close>\<close>

definition URL_GET_STORAGE_BLOB_format :: "string \<Rightarrow> string" where
  "URL_GET_STORAGE_BLOB_format account_id =
     ''https://s2.automation.ext.azure.com/api/Orchestrator/GenerateSasLinkUri?accountId=''
     @ account_id @ ''&assetType=Module''"

definition AZURE_MANAGEMENT_URL :: string where
  "AZURE_MANAGEMENT_URL = ''https://management.azure.com''"

definition DEFAULT_API_VERSION :: string where
  "DEFAULT_API_VERSION = ''2018-06-30''"

definition UPLOAD_TIMEOUT :: real where
  "UPLOAD_TIMEOUT = 300"

definition SLEEP_BETWEEN_ERROR_SECONDS :: real where
  "SLEEP_BETWEEN_ERROR_SECONDS = 10"

definition TIME_BETWEEN_REQUESTS_SECONDS :: real where
  "TIME_BETWEEN_REQUESTS_SECONDS = 1 / 2"

definition HTTP_REQUEST_TIMEOUT :: int where
  "HTTP_REQUEST_TIMEOUT = 5"

text \<open>The members of \<^verbatim>\<open>http.HTTPStatus\<close> that the code names.\<close>

definition UNAUTHORIZED :: int where "UNAUTHORIZED = 401"
definition BAD_REQUEST :: int where "BAD_REQUEST = 400"
definition NOT_FOUND :: int where "NOT_FOUND = 404"
definition TOO_MANY_REQUESTS :: int where "TOO_MANY_REQUESTS = 429"
definition GATEWAY_TIMEOUT :: int where "GATEWAY_TIMEOUT = 504"
definition SERVICE_UNAVAILABLE :: int where "SERVICE_UNAVAILABLE = 503"

subsection \<open>The upload-state enum\<close>

text \<open>
  \<^verbatim>\<open>class UPLOAD_STATE(str, Enum)\<close>: seven members, each a string. A member of a
  \<^verbatim>\<open>str\<close> enum compares with \<^verbatim>\<open>==\<close> as its string value does.
\<close>

datatype UPLOAD_STATE =
    FAILED
  | CREATING
  | SUCCEEDED
  | CONTENT_VALIDATED
  | CONTENT_DOWNLOADED
  | CONNECTION_TYPE_IMPORTED
  | RUNNING_IMPORT_MODULE_RUNBOOK

fun upload_state_value :: "UPLOAD_STATE \<Rightarrow> string" where
  "upload_state_value FAILED = ''Failed''"
| "upload_state_value CREATING = ''Creating''"
| "upload_state_value SUCCEEDED = ''Succeeded''"
| "upload_state_value CONTENT_VALIDATED = ''ContentValidated''"
| "upload_state_value CONTENT_DOWNLOADED = ''ContentDownloaded''"
| "upload_state_value CONNECTION_TYPE_IMPORTED = ''ConnectionTypeImported''"
| "upload_state_value RUNNING_IMPORT_MODULE_RUNBOOK = ''RunningImportModuleRunbook''"

definition UPLOAD_STATE_members :: "UPLOAD_STATE list" where
  "UPLOAD_STATE_members =
     [FAILED, CREATING, SUCCEEDED, CONTENT_VALIDATED, CONTENT_DOWNLOADED,
      CONNECTION_TYPE_IMPORTED, RUNNING_IMPORT_MODULE_RUNBOOK]"

text \<open>\<^verbatim>\<open>member == s\<close> for a string \<open>s\<close>: the comparison of \<^verbatim>\<open>str\<close>, on the member's value.\<close>

definition member_eq_str :: "UPLOAD_STATE \<Rightarrow> string \<Rightarrow> bool" where
  "member_eq_str m s \<longleftrightarrow> upload_state_value m = s"

subsection \<open>JSON documents, responses, exceptions\<close>

text \<open>
  What \<^verbatim>\<open>Response.json()\<close> returns: Python's \<^verbatim>\<open>None\<close> is \<open>JNull\<close>, a \<^verbatim>\<open>dict\<close> is the list of
  its items.
\<close>

datatype json =
    JNull
  | JBool bool
  | JNum int
  | JStr string
  | JArr "json list"
  | JObj "(string \<times> json) list"

text \<open>Truth value of a Python object, as \<^verbatim>\<open>if x:\<close> and \<^verbatim>\<open>not x\<close> take it.\<close>

fun truthy :: "json \<Rightarrow> bool" where
  "truthy JNull = False"
| "truthy (JBool b) = b"
| "truthy (JNum n) = (n \<noteq> 0)"
| "truthy (JStr s) = (s \<noteq> [])"
| "truthy (JArr xs) = (xs \<noteq> [])"
| "truthy (JObj kvs) = (kvs \<noteq> [])"

record response =
  status_code :: int
  body :: "json option"

text \<open>
  The exceptions \<^verbatim>\<open>requests.request\<close> can raise. The module imports \<^verbatim>\<open>ReadTimeout\<close> and
  \<^verbatim>\<open>ChunkedEncodingError\<close> from \<^verbatim>\<open>requests.exceptions\<close>; the name \<^verbatim>\<open>ConnectionError\<close> in
  its \<^verbatim>\<open>except\<close> clause is not imported, so it is Python's builtin class. Every exception
  outside these three classes is \<open>OtherRequestError\<close>.
\<close>

datatype request_error =
    ReadTimeout
  | ChunkedEncodingError
  | ConnectionError
  | OtherRequestError string

text \<open>
  One constructor for each \<^verbatim>\<open>raise CloudMinerException(...)\<close> of the three files, with the
  values its message interpolates.
\<close>

datatype cloudminer_message =
    InvalidAccessToken
  | InvalidAccountId string
  | AccountDoesNotExist string
  | MaxRetriesReached string string
  | PackageDoesNotExist string
  | UploadFlowNotStarted string
  | UploadFailed json
  | UploadTimedOut
  | MustLoginWithCli
  | GetTokenFailed string
  | AzureCliNotInstalled
  | ScriptPathMissing string
  | RequirementsPathMissing string
  | UnsupportedExtension string

datatype exn =
    CloudMinerException cloudminer_message
  | HTTPError response
  | RequestError request_error
  | JSONDecodeError
  | KeyError string
  | TypeError
  | FileNotFoundError string
  | UtilsError string

text \<open>\<^verbatim>\<open>Response.raise_for_status()\<close>: an \<^verbatim>\<open>HTTPError\<close> for a status from 400 to 599.\<close>

definition raise_for_status :: "response \<Rightarrow> exn + unit" where
  "raise_for_status resp =
     (if 400 \<le> status_code resp \<and> status_code resp < 600 then Inl (HTTPError resp)
      else Inr ())"

text \<open>\<^verbatim>\<open>Response.json()\<close>: the parsed body, or an error when the body is not JSON.\<close>

definition response_json :: "response \<Rightarrow> exn + json" where
  "response_json resp = (case body resp of None \<Rightarrow> Inl JSONDecodeError | Some j \<Rightarrow> Inr j)"

text \<open>\<^verbatim>\<open>obj[key]\<close> with a string key: only a \<^verbatim>\<open>dict\<close> can be indexed so.\<close>

fun getitem :: "json \<Rightarrow> string \<Rightarrow> exn + json" where
  "getitem (JObj kvs) k = (case map_of kvs k of None \<Rightarrow> Inl (KeyError k) | Some v \<Rightarrow> Inr v)"
| "getitem _ k = Inl TypeError"

subsection \<open>The world and the environment\<close>

datatype payload = NoPayload | Data string | Json json

record request =
  req_time :: real
  req_method :: string
  req_url :: string
  req_headers :: "(string \<times> string) list"
  req_timeout :: int
  req_payload :: payload

datatype outcome = Responds response | Raises request_error

record reply =
  latency_ms :: nat
  outcome :: outcome

record world =
  now :: real
  sent :: "request list"
  files :: "string \<Rightarrow> string option"
  uuids_drawn :: nat
  commands :: "string list list"

text \<open>
  \<open>server env n\<close> is the reply to the \<open>n\<close>-th request of the run (counted from 0),
  \<open>uuid4 env n\<close> the \<open>n\<close>-th UUID drawn. The module \<^verbatim>\<open>cloudminer.utils\<close> is not part of
  the sources: its functions are parameters, which read the file system and return a
  result and the file system they leave behind.
\<close>

record process =
  returncode :: int
  stdout_access_token :: "exn + string"
  stderr :: string

record env =
  server :: "nat \<Rightarrow> reply"
  uuid4 :: "nat \<Rightarrow> string"
  run_command :: "string list \<Rightarrow> process option"
  get_file_extension :: "string \<Rightarrow> string"
  zip_file :: "(string \<Rightarrow> string option) \<Rightarrow> string \<Rightarrow> string
                 \<Rightarrow> (exn + string) \<times> (string \<Rightarrow> string option)"
  package_to_whl :: "(string \<Rightarrow> string option) \<Rightarrow> string
                 \<Rightarrow> (exn + string) \<times> (string \<Rightarrow> string option)"
  RESOURCES_DIRECTORY :: string

text \<open>\<^verbatim>\<open>time.sleep\<close>.\<close>

definition sleep :: "real \<Rightarrow> 'a world_scheme \<Rightarrow> 'a world_scheme" where
  "sleep d w = w\<lparr>now := now w + d\<rparr>"

text \<open>
  \<^verbatim>\<open>requests.request(http_method, url, headers=headers, timeout=timeout, **kwargs)\<close>: the
  request is recorded with the time it is issued at, and the clock advances by the
  latency of the reply.
\<close>

definition requests_request ::
  "env \<Rightarrow> string \<Rightarrow> string \<Rightarrow> (string \<times> string) list \<Rightarrow> int \<Rightarrow> payload
     \<Rightarrow> 'a world_scheme \<Rightarrow> outcome \<times> 'a world_scheme" where
  "requests_request env http_method url headers timeout kwargs w =
     (let r = server env (length (sent w)) in
      (outcome r,
       w\<lparr>sent := sent w @ [\<lparr>req_time = now w, req_method = http_method, req_url = url,
                             req_headers = headers, req_timeout = timeout,
                             req_payload = kwargs\<rparr>],
         now := now w + real (latency_ms r) / 1000\<rparr>))"

subsection \<open>\<^verbatim>\<open>AzureAutomationSession\<close>\<close>

text \<open>
  The attributes of the session object. \<^verbatim>\<open>__current_temp_storage_url\<close> is not set by
  \<^verbatim>\<open>__init__\<close>: it is \<open>None\<close> until \<^verbatim>\<open>__upload_file_to_temp_storage\<close> assigns it.
\<close>

record state = world +
  account_id :: string
  access_token :: string
  next_request_time :: real
  current_temp_storage_url :: "json option"

definition new_session :: "string \<Rightarrow> string \<Rightarrow> world \<Rightarrow> state" where
  "new_session account_id' access_token' w =
     \<lparr>now = now w, sent = sent w, files = files w, uuids_drawn = uuids_drawn w,
      commands = commands w,
      account_id = account_id', access_token = access_token', next_request_time = 0,
      current_temp_storage_url = None\<rparr>"

text \<open>\<^verbatim>\<open>posixpath.join\<close>, one component at a time.\<close>

definition join_step :: "string \<Rightarrow> string \<Rightarrow> string" where
  "join_step path b =
     (if b \<noteq> [] \<and> hd b = CHR ''/'' then b
      else if path = [] \<or> last path = CHR ''/'' then path @ b
      else path @ ''/'' @ b)"

definition posixpath_join :: "string \<Rightarrow> string list \<Rightarrow> string" where
  "posixpath_join a ps = foldl join_step a ps"

definition get_url :: "string \<Rightarrow> 'a state_scheme \<Rightarrow> string" where
  "get_url path s =
     posixpath_join AZURE_MANAGEMENT_URL [drop 1 (account_id s), path]
     @ ''?api-version='' @ DEFAULT_API_VERSION"

definition wait_for_next_request :: "'a state_scheme \<Rightarrow> 'a state_scheme" where
  "wait_for_next_request s =
     (let current_time = now s;
          time_gap = next_request_time s - current_time;
          s1 = (if time_gap > 0 then sleep time_gap s else s)
      in s1\<lparr>next_request_time := now s1 + TIME_BETWEEN_REQUESTS_SECONDS\<rparr>)"

text \<open>
  The \<^verbatim>\<open>for _ in range(retries)\<close> loop of \<^verbatim>\<open>__http_request\<close>, on the number of attempts
  left; its \<^verbatim>\<open>else\<close> branch is the case 0.
\<close>

definition transient_status :: "int \<Rightarrow> bool" where
  "transient_status c \<longleftrightarrow> c \<in> set [TOO_MANY_REQUESTS, GATEWAY_TIMEOUT, SERVICE_UNAVAILABLE]"

fun attempts :: "env \<Rightarrow> string \<Rightarrow> string \<Rightarrow> (string \<times> string) list \<Rightarrow> int \<Rightarrow> payload
                   \<Rightarrow> nat \<Rightarrow> 'a state_scheme \<Rightarrow> (exn + response) \<times> 'a state_scheme" where
  "attempts env http_method url headers timeout kwargs 0 s =
     (Inl (CloudMinerException (MaxRetriesReached http_method url)), s)"
| "attempts env http_method url headers timeout kwargs (Suc n) s =
     (case requests_request env http_method url headers timeout kwargs s of
        (Raises e, s1) \<Rightarrow>
          (if e = ReadTimeout \<or> e = ChunkedEncodingError \<or> e = ConnectionError
           then attempts env http_method url headers timeout kwargs n
                  (sleep SLEEP_BETWEEN_ERROR_SECONDS s1)
           else (Inl (RequestError e), s1))
      | (Responds resp, s1) \<Rightarrow>
          (if transient_status (status_code resp)
           then attempts env http_method url headers timeout kwargs n
                  (sleep SLEEP_BETWEEN_ERROR_SECONDS s1)
           else (case raise_for_status resp of
                   Inl e \<Rightarrow> (Inl e, s1)
                 | Inr _ \<Rightarrow> (Inr resp, s1))))"

definition http_request ::
  "env \<Rightarrow> string \<Rightarrow> string \<Rightarrow> (string \<times> string) list \<Rightarrow> bool \<Rightarrow> int \<Rightarrow> int \<Rightarrow> payload
     \<Rightarrow> 'a state_scheme \<Rightarrow> (exn + response) \<times> 'a state_scheme" where
  "http_request env http_method url headers add_auth_info retries timeout kwargs s =
     (let s1 = wait_for_next_request s;
          headers1 = (if add_auth_info
                      then AList.update ''Authorization'' (''Bearer '' @ access_token s1) headers
                      else headers)
      in attempts env http_method url headers1 timeout kwargs (nat retries) s1)"

text \<open>
  No call in the three files passes \<^verbatim>\<open>retries\<close> or \<^verbatim>\<open>timeout\<close>: every call runs with the
  defaults of the signature.
\<close>

definition default_retries :: int where
  "default_retries = 5"

definition http_request_default ::
  "env \<Rightarrow> string \<Rightarrow> string \<Rightarrow> (string \<times> string) list \<Rightarrow> bool \<Rightarrow> payload
     \<Rightarrow> 'a state_scheme \<Rightarrow> (exn + response) \<times> 'a state_scheme" where
  "http_request_default env http_method url headers add_auth_info kwargs s =
     http_request env http_method url headers add_auth_info default_retries
       HTTP_REQUEST_TIMEOUT kwargs s"

text \<open>
  \<^verbatim>\<open>__init__\<close>: the three attributes, then one \<^verbatim>\<open>GET\<close> of the account's URL. The handler
  of \<^verbatim>\<open>except requests.HTTPError as e\<close> is \<open>init_except\<close>; any other exception passes.
\<close>

fun init_except :: "string \<Rightarrow> exn \<Rightarrow> exn" where
  "init_except account_id' (HTTPError resp) =
     (if status_code resp = UNAUTHORIZED then CloudMinerException InvalidAccessToken
      else if status_code resp = BAD_REQUEST
        then CloudMinerException (InvalidAccountId account_id')
      else if status_code resp = NOT_FOUND
        then CloudMinerException (AccountDoesNotExist account_id')
      else HTTPError resp)"
| "init_except account_id' e = e"

definition init :: "env \<Rightarrow> string \<Rightarrow> string \<Rightarrow> world \<Rightarrow> (exn + unit) \<times> state" where
  "init env account_id' access_token' w =
     (let s = new_session account_id' access_token' w in
      case http_request_default env ''GET'' (get_url [] s) [] True NoPayload s of
        (Inl e, s1) \<Rightarrow> (Inl (init_except account_id' e), s1)
      | (Inr _, s1) \<Rightarrow> (Inr (), s1))"

text \<open>
  \<^verbatim>\<open>__upload_file_to_temp_storage\<close>. The URL of the second request is the JSON document
  the first one returned; \<^verbatim>\<open>requests\<close> refuses a URL that is not a string with an
  exception outside the three classes that are caught, before it sends anything.
\<close>

definition upload_file_to_temp_storage ::
  "env \<Rightarrow> string \<Rightarrow> 'a state_scheme \<Rightarrow> (exn + json) \<times> 'a state_scheme" where
  "upload_file_to_temp_storage env file_path s =
     (let url = URL_GET_STORAGE_BLOB_format (account_id s) in
      case http_request_default env ''GET'' url [] True NoPayload s of
        (Inl e, s1) \<Rightarrow> (Inl e, s1)
      | (Inr resp, s1) \<Rightarrow>
          (case response_json resp of
             Inl e \<Rightarrow> (Inl e, s1)
           | Inr j \<Rightarrow>
               (let s2 = s1\<lparr>current_temp_storage_url := Some j\<rparr> in
                case files s2 file_path of
                  None \<Rightarrow> (Inl (FileNotFoundError file_path), s2)
                | Some file_data \<Rightarrow>
                    (case j of
                       JStr u \<Rightarrow>
                         (case http_request_default env ''PUT'' u
                                 [(''x-ms-blob-type'', ''BlockBlob'')] False (Data file_data) s2 of
                            (Inl e, s3) \<Rightarrow> (Inl e, s3)
                          | (Inr _, s3) \<Rightarrow> (Inr j, s3))
                     | _ \<Rightarrow>
                         (Inl (RequestError (OtherRequestError ''url'')),
                          wait_for_next_request s2)))))"

definition content_link :: "json \<Rightarrow> json" where
  "content_link temp_storage_url =
     JObj [(''properties'', JObj [(''contentLink'', JObj [(''uri'', temp_storage_url)])])]"

definition upload_powershell_module ::
  "env \<Rightarrow> string \<Rightarrow> string \<Rightarrow> 'a state_scheme \<Rightarrow> (exn + unit) \<times> 'a state_scheme" where
  "upload_powershell_module env module_name zipped_ps_module s =
     (case upload_file_to_temp_storage env zipped_ps_module s of
        (Inl e, s1) \<Rightarrow> (Inl e, s1)
      | (Inr temp_storage_url, s1) \<Rightarrow>
          (let url = get_url (''modules/'' @ module_name) s1;
               request_data = content_link temp_storage_url
           in case http_request_default env ''PUT'' url [] True (Json request_data) s1 of
                (Inl e, s2) \<Rightarrow> (Inl e, s2)
              | (Inr _, s2) \<Rightarrow> (Inr (), s2)))"

definition upload_python_package ::
  "env \<Rightarrow> string \<Rightarrow> string \<Rightarrow> 'a state_scheme \<Rightarrow> (exn + unit) \<times> 'a state_scheme" where
  "upload_python_package env package_name whl_path s =
     (case upload_file_to_temp_storage env whl_path s of
        (Inl e, s1) \<Rightarrow> (Inl e, s1)
      | (Inr temp_storage_url, s1) \<Rightarrow>
          (let url = get_url (''python3Packages/'' @ package_name) s1;
               request_data = content_link temp_storage_url
           in case http_request_default env ''PUT'' url [] True (Json request_data) s1 of
                (Inl e, s2) \<Rightarrow> (Inl e, s2)
              | (Inr _, s2) \<Rightarrow> (Inr (), s2)))"

text \<open>
  \<^verbatim>\<open>get_python_package\<close>: the call of \<^verbatim>\<open>.json()\<close> is inside the \<^verbatim>\<open>try\<close>, whose handler
  takes an \<^verbatim>\<open>HTTPError\<close> only. The result \<^verbatim>\<open>None\<close> is \<open>JNull\<close>.
\<close>

fun get_except :: "exn \<Rightarrow> exn + json" where
  "get_except (HTTPError resp) =
     (if status_code resp = NOT_FOUND then Inr JNull else Inl (HTTPError resp))"
| "get_except e = Inl e"

definition get_python_package ::
  "env \<Rightarrow> string \<Rightarrow> 'a state_scheme \<Rightarrow> (exn + json) \<times> 'a state_scheme" where
  "get_python_package env package_name s =
     (let url = get_url (''python3Packages/'' @ package_name) s in
      case http_request_default env ''GET'' url [] True NoPayload s of
        (Inl e, s1) \<Rightarrow> (get_except e, s1)
      | (Inr resp, s1) \<Rightarrow>
          (case response_json resp of
             Inl e \<Rightarrow> (get_except e, s1)
           | Inr package_data \<Rightarrow> (Inr package_data, s1)))"

fun delete_except :: "string \<Rightarrow> exn \<Rightarrow> exn" where
  "delete_except package_name (HTTPError resp) =
     (if status_code resp = NOT_FOUND
      then CloudMinerException (PackageDoesNotExist package_name)
      else HTTPError resp)"
| "delete_except package_name e = e"

definition delete_python_package ::
  "env \<Rightarrow> string \<Rightarrow> 'a state_scheme \<Rightarrow> (exn + unit) \<times> 'a state_scheme" where
  "delete_python_package env package_name s =
     (let url = get_url (''python3Packages/'' @ package_name) s in
      case http_request_default env ''DELETE'' url [] True NoPayload s of
        (Inl e, s1) \<Rightarrow> (Inl (delete_except package_name e), s1)
      | (Inr _, s1) \<Rightarrow> (Inr (), s1))"

subsection \<open>The executors of \<^verbatim>\<open>scripts_executor.py\<close>\<close>

text \<open>
  The attributes of an executor: it keeps a reference to the session, here the session
  part of the record, and the paths it was built with. A \<^verbatim>\<open>PowershellScriptExecutor\<close> has
  no \<^verbatim>\<open>requirements_file\<close> and never reads the field.
\<close>

record executor = state +
  script_path :: string
  requirements_file :: "string option"

definition new_executor :: "state \<Rightarrow> string \<Rightarrow> string option \<Rightarrow> executor" where
  "new_executor s script_path' requirements_file' =
     \<lparr>now = now s, sent = sent s, files = files s, uuids_drawn = uuids_drawn s,
      commands = commands s,
      account_id = account_id s, access_token = access_token s,
      next_request_time = next_request_time s,
      current_temp_storage_url = current_temp_storage_url s,
      script_path = script_path', requirements_file = requirements_file'\<rparr>"

text \<open>\<^verbatim>\<open>str(uuid.uuid4())\<close>: the next UUID of the environment.\<close>

definition str_uuid4 :: "env \<Rightarrow> 'a world_scheme \<Rightarrow> string \<times> 'a world_scheme" where
  "str_uuid4 env w = (uuid4 env (uuids_drawn w), w\<lparr>uuids_drawn := Suc (uuids_drawn w)\<rparr>)"

text \<open>A function of \<^verbatim>\<open>cloudminer.utils\<close> that works on files, run on the world's files.\<close>

definition on_files ::
  "((string \<Rightarrow> string option) \<Rightarrow> (exn + 'r) \<times> (string \<Rightarrow> string option))
     \<Rightarrow> 'a world_scheme \<Rightarrow> (exn + 'r) \<times> 'a world_scheme" where
  "on_files f w = (case f (files w) of (r, fs) \<Rightarrow> (r, w\<lparr>files := fs\<rparr>))"

text \<open>
  \<^verbatim>\<open>PowershellScriptExecutor.execute_script\<close>: the loop \<^verbatim>\<open>for index in range(count)\<close>, on the
  number of rounds left.
\<close>

fun powershell_rounds ::
  "env \<Rightarrow> nat \<Rightarrow> 'a executor_scheme \<Rightarrow> (exn + unit) \<times> 'a executor_scheme" where
  "powershell_rounds env 0 s = (Inr (), s)"
| "powershell_rounds env (Suc n) s =
     (case str_uuid4 env s of
        (module_name, s1) \<Rightarrow>
          (case on_files (\<lambda>fs. zip_file env fs (script_path s1) (module_name @ ''.psm1'')) s1 of
             (Inl e, s2) \<Rightarrow> (Inl e, s2)
           | (Inr zipped_ps_module, s2) \<Rightarrow>
               (case upload_powershell_module env module_name zipped_ps_module s2 of
                  (Inl e, s3) \<Rightarrow> (Inl e, s3)
                | (Inr _, s3) \<Rightarrow> powershell_rounds env n s3)))"

definition powershell_execute_script ::
  "env \<Rightarrow> int \<Rightarrow> 'a executor_scheme \<Rightarrow> (exn + unit) \<times> 'a executor_scheme" where
  "powershell_execute_script env count s = powershell_rounds env (nat count) s"

text \<open>The class attributes of \<^verbatim>\<open>PythonScriptExecutor\<close>; \<^verbatim>\<open>os.path.join\<close> is the POSIX one.\<close>

definition PIP_PACKAGE_NAME :: string where
  "PIP_PACKAGE_NAME = ''pip''"

definition UPLOAD_STATE_CHECK_INTERVAL_SECONDS :: real where
  "UPLOAD_STATE_CHECK_INTERVAL_SECONDS = 20"

definition CUSTOM_PIP_PATH :: "env \<Rightarrow> string" where
  "CUSTOM_PIP_PATH env = posixpath_join (RESOURCES_DIRECTORY env) [PIP_PACKAGE_NAME]"

definition DUMMY_WHL_PATH :: "env \<Rightarrow> string" where
  "DUMMY_WHL_PATH env =
     posixpath_join (RESOURCES_DIRECTORY env) [''random_whl-0.0.1-py3-none-any.whl'']"

definition delete_pip_if_exists ::
  "env \<Rightarrow> 'a executor_scheme \<Rightarrow> (exn + unit) \<times> 'a executor_scheme" where
  "delete_pip_if_exists env s =
     (case get_python_package env PIP_PACKAGE_NAME s of
        (Inl e, s1) \<Rightarrow> (Inl e, s1)
      | (Inr pip_package, s1) \<Rightarrow>
          (if truthy pip_package then delete_python_package env PIP_PACKAGE_NAME s1
           else (Inr (), s1)))"

text \<open>\<^verbatim>\<open>upload_state == UPLOAD_STATE.X\<close>, for the value found in the package data.\<close>

definition state_is :: "json \<Rightarrow> UPLOAD_STATE \<Rightarrow> bool" where
  "state_is upload_state m = (case upload_state of JStr v \<Rightarrow> member_eq_str m v | _ \<Rightarrow> False)"

text \<open>\<^verbatim>\<open>package_data["properties"]["provisioningState"]\<close> and the error message.\<close>

definition provisioning_state :: "json \<Rightarrow> exn + json" where
  "provisioning_state package_data =
     (case getitem package_data ''properties'' of
        Inl e \<Rightarrow> Inl e
      | Inr properties \<Rightarrow> getitem properties ''provisioningState'')"

definition error_message :: "json \<Rightarrow> exn + json" where
  "error_message package_data =
     (case getitem package_data ''properties'' of
        Inl e \<Rightarrow> Inl e
      | Inr properties \<Rightarrow>
          (case getitem properties ''error'' of
             Inl e \<Rightarrow> Inl e
           | Inr err \<Rightarrow> getitem err ''message''))"

text \<open>
  The loop \<^verbatim>\<open>while time.time() < end_time\<close> of \<^verbatim>\<open>_wait_for_package_upload\<close>; its \<^verbatim>\<open>else\<close>
  branch is the timeout. Every round that goes on sleeps, so the time left shrinks.
\<close>

function wait_rounds ::
  "env \<Rightarrow> string \<Rightarrow> real \<Rightarrow> 'a executor_scheme \<Rightarrow> (exn + unit) \<times> 'a executor_scheme" where
  "wait_rounds env package_name end_time s =
     (if now s < end_time then
        (case get_python_package env package_name s of
           (Inl e, s1) \<Rightarrow> (Inl e, s1)
         | (Inr package_data, s1) \<Rightarrow>
             (if \<not> truthy package_data
              then (Inl (CloudMinerException (UploadFlowNotStarted package_name)), s1)
              else (case provisioning_state package_data of
                      Inl e \<Rightarrow> (Inl e, s1)
                    | Inr upload_state \<Rightarrow>
                        (if state_is upload_state SUCCEEDED then (Inr (), s1)
                         else if state_is upload_state FAILED then
                           (case error_message package_data of
                              Inl e \<Rightarrow> (Inl e, s1)
                            | Inr err \<Rightarrow> (Inl (CloudMinerException (UploadFailed err)), s1))
                         else wait_rounds env package_name end_time
                                (sleep UPLOAD_STATE_CHECK_INTERVAL_SECONDS s1)))))
      else (Inl (CloudMinerException UploadTimedOut), s))"
  by pat_completeness auto
termination
proof (relation "measure (\<lambda>(env, package_name, end_time, s).
                    nat \<lceil>(end_time - now s) / UPLOAD_STATE_CHECK_INTERVAL_SECONDS\<rceil>)")
  show "wf (measure (\<lambda>(env :: env, package_name :: string, end_time, s :: 'a executor_scheme).
                    nat \<lceil>(end_time - now s) / UPLOAD_STATE_CHECK_INTERVAL_SECONDS\<rceil>))"
    by simp
next
  fix env :: env and package_name :: string and end_time :: real
    and s s1 :: "'a executor_scheme" and x :: "exn + json" and package_data upload_state :: json
  assume running: "now s < end_time"
    and got: "(x, s1) = get_python_package env package_name s"
  have attempts_clock: "now t \<le> now (snd (attempts env m u h tm k n t))"
    for m u h tm k n and t :: "'a executor_scheme"
  proof (induction n arbitrary: t)
    case 0
    show ?case by simp
  next
    case (Suc n)
    obtain out t1 where req: "requests_request env m u h tm k t = (out, t1)"
      by (cases "requests_request env m u h tm k t")
    then have step: "now t \<le> now t1"
      by (auto simp: requests_request_def Let_def)
    have "now t1 \<le> now (sleep SLEEP_BETWEEN_ERROR_SECONDS t1)"
      by (simp add: sleep_def SLEEP_BETWEEN_ERROR_SECONDS_def)
    also have "\<dots> \<le> now (snd (attempts env m u h tm k n
                                  (sleep SLEEP_BETWEEN_ERROR_SECONDS t1)))"
      by (rule Suc.IH)
    finally have later: "now t1 \<le> now (snd (attempts env m u h tm k n
                                  (sleep SLEEP_BETWEEN_ERROR_SECONDS t1)))" .
    from req step later show ?case
      by (auto split: outcome.splits sum.splits)
  qed
  define url where "url = get_url (''python3Packages/'' @ package_name) s"
  have same: "snd (get_python_package env package_name s)
              = snd (http_request_default env ''GET'' url [] True NoPayload s)"
    by (simp add: get_python_package_def url_def Let_def split: prod.splits sum.splits)
  have "now s \<le> now (wait_for_next_request s)"
    by (simp add: wait_for_next_request_def Let_def sleep_def)
  also have "\<dots> \<le> now (snd (http_request_default env ''GET'' url [] True NoPayload s))"
    unfolding http_request_default_def http_request_def Let_def by (rule attempts_clock)
  finally have "now s \<le> now s1"
    using got same by (metis snd_conv)
  then have "(end_time - now (sleep UPLOAD_STATE_CHECK_INTERVAL_SECONDS s1))
               / UPLOAD_STATE_CHECK_INTERVAL_SECONDS
             \<le> (end_time - now s) / UPLOAD_STATE_CHECK_INTERVAL_SECONDS - 1"
    by (simp add: sleep_def UPLOAD_STATE_CHECK_INTERVAL_SECONDS_def)
  moreover have "0 < (end_time - now s) / UPLOAD_STATE_CHECK_INTERVAL_SECONDS"
    using running by (simp add: UPLOAD_STATE_CHECK_INTERVAL_SECONDS_def)
  ultimately
  have "nat \<lceil>(end_time - now (sleep UPLOAD_STATE_CHECK_INTERVAL_SECONDS s1))
               / UPLOAD_STATE_CHECK_INTERVAL_SECONDS\<rceil>
        < nat \<lceil>(end_time - now s) / UPLOAD_STATE_CHECK_INTERVAL_SECONDS\<rceil>"
    by linarith
  then show "((env, package_name, end_time, sleep UPLOAD_STATE_CHECK_INTERVAL_SECONDS s1),
              env, package_name, end_time, s)
             \<in> measure (\<lambda>(env, package_name, end_time, s).
                    nat \<lceil>(end_time - now s) / UPLOAD_STATE_CHECK_INTERVAL_SECONDS\<rceil>)"
    by simp
qed

definition wait_for_package_upload ::
  "env \<Rightarrow> string \<Rightarrow> real \<Rightarrow> 'a executor_scheme \<Rightarrow> (exn + unit) \<times> 'a executor_scheme" where
  "wait_for_package_upload env package_name timeout_seconds s =
     (let start_time = now s;
          end_time = start_time + timeout_seconds
      in wait_rounds env package_name end_time s)"

text \<open>
  \<^verbatim>\<open>_wrap_script\<close>. A file holds its text as bytes (the header's four Chinese characters
  are their UTF-8 bytes), with \<^verbatim>\<open>\n\<close> as the only line break; \<open>readlines_stripped\<close> is
  \<^verbatim>\<open>[line.replace('\n', '') for line in f.readlines()]\<close>, \<open>str_join\<close> is \<^verbatim>\<open>sep.join\<close>.
\<close>

definition readlines_stripped :: "string \<Rightarrow> string list" where
  "readlines_stripped text =
     foldr (\<lambda>c acc. if c = CHR 0x0A then [] # acc
                     else (case acc of [] \<Rightarrow> [[c]] | l # ls \<Rightarrow> (c # l) # ls)) text []"

fun str_join :: "string \<Rightarrow> string list \<Rightarrow> string" where
  "str_join sep [] = []"
| "str_join sep [x] = x"
| "str_join sep (x # y # ys) = x @ sep @ str_join sep (y # ys)"

definition hash_line :: string where
  "hash_line = ''######################################################################################''"

definition install_requirements_code :: "string list \<Rightarrow> string list" where
  "install_requirements_code requirements =
     [''import requests, subprocess, sys, os, tempfile'',
      ''tmp_folder = tempfile.gettempdir()'',
      ''sys.path.append(tmp_folder)'',
      ''tmp_pip = requests.get('https://bootstrap.pypa.io/get-pip.py').content'',
      ''open(os.path.join(tmp_folder, 'tmp_pip.py'), 'wb+').write(tmp_pip)'',
      ''subprocess.run(f'{sys.executable} {os.path.join(tmp_folder, '' @ [CHR 0x22]
        @ ''tmp_pip.py'' @ [CHR 0x22] @ '')} '' @ str_join '' '' requirements
        @ '' --target {tmp_folder}', shell=True)'']"

definition wrap_script :: "'a executor_scheme \<Rightarrow> exn + string" where
  "wrap_script s =
     (case (case requirements_file s of
              None \<Rightarrow> Inr []
            | Some f \<Rightarrow>
                (if f = [] then Inr []
                 else (case files s f of
                         None \<Rightarrow> Inl (FileNotFoundError f)
                       | Some text \<Rightarrow>
                           Inr (install_requirements_code (readlines_stripped text))))) of
        Inl e \<Rightarrow> Inl e
      | Inr INSTALL_REQUIREMENTS_CODE \<Rightarrow>
          Inr (str_join [CHR 0x0A]
                 ([''# CloudMiner '' @ [CHR 0xE8, CHR 0x87, CHR 0xAA, CHR 0xE5, CHR 0x8A, CHR 0xA8,
                                        CHR 0xE6, CHR 0xB7, CHR 0xBB, CHR 0xE5, CHR 0x8A, CHR 0xA0],
                   hash_line]
                  @ INSTALL_REQUIREMENTS_CODE
                  @ [''def _main():'' @ [CHR 0x0A, CHR 0x09] @ ''pass'',
                     hash_line @ [CHR 0x0A]])))"

text \<open>
  \<^verbatim>\<open>_create_whl_for_upload\<close>: \<^verbatim>\<open>shutil.copyfile\<close>, the read, the write of the wrapped text,
  then \<^verbatim>\<open>utils.package_to_whl\<close>.
\<close>

definition main_file_path :: "env \<Rightarrow> string" where
  "main_file_path env =
     posixpath_join (CUSTOM_PIP_PATH env) [''src'', PIP_PACKAGE_NAME, ''main.py'']"

definition create_whl_for_upload ::
  "env \<Rightarrow> 'a executor_scheme \<Rightarrow> (exn + string) \<times> 'a executor_scheme" where
  "create_whl_for_upload env s =
     (case files s (script_path s) of
        None \<Rightarrow> (Inl (FileNotFoundError (script_path s)), s)
      | Some script \<Rightarrow>
          (let s1 = s\<lparr>files := (files s)(main_file_path env \<mapsto> script)\<rparr>;
               raw_main_file = script
           in case wrap_script s1 of
                Inl e \<Rightarrow> (Inl e, s1)
              | Inr wrapper \<Rightarrow>
                  (let wrapped_main_file = wrapper @ raw_main_file;
                       s2 = s1\<lparr>files := (files s1)(main_file_path env \<mapsto> wrapped_main_file)\<rparr>
                   in on_files (\<lambda>fs. package_to_whl env fs (CUSTOM_PIP_PATH env)) s2)))"

text \<open>\<^verbatim>\<open>PythonScriptExecutor.execute_script\<close> and its loop \<^verbatim>\<open>for index in range(count)\<close>.\<close>

fun python_rounds ::
  "env \<Rightarrow> nat \<Rightarrow> 'a executor_scheme \<Rightarrow> (exn + unit) \<times> 'a executor_scheme" where
  "python_rounds env 0 s = (Inr (), s)"
| "python_rounds env (Suc n) s =
     (case str_uuid4 env s of
        (package_name, s1) \<Rightarrow>
          (case upload_python_package env package_name (DUMMY_WHL_PATH env) s1 of
             (Inl e, s2) \<Rightarrow> (Inl e, s2)
           | (Inr _, s2) \<Rightarrow> python_rounds env n s2))"

definition python_execute_script ::
  "env \<Rightarrow> int \<Rightarrow> 'a executor_scheme \<Rightarrow> (exn + unit) \<times> 'a executor_scheme" where
  "python_execute_script env count s =
     (case delete_pip_if_exists env s of
        (Inl e, s1) \<Rightarrow> (Inl e, s1)
      | (Inr _, s1) \<Rightarrow>
          (case create_whl_for_upload env s1 of
             (Inl e, s2) \<Rightarrow> (Inl e, s2)
           | (Inr whl_path, s2) \<Rightarrow>
               (case upload_python_package env PIP_PACKAGE_NAME whl_path s2 of
                  (Inl e, s3) \<Rightarrow> (Inl e, s3)
                | (Inr _, s3) \<Rightarrow>
                    (case wait_for_package_upload env PIP_PACKAGE_NAME UPLOAD_TIMEOUT s3 of
                       (Inl e, s4) \<Rightarrow> (Inl e, s4)
                     | (Inr _, s4) \<Rightarrow> python_rounds env (nat count) s4))))"

subsection \<open>\<^verbatim>\<open>cloud_miner.py\<close>\<close>

text \<open>
  \<^verbatim>\<open>utils.run_command\<close>: the command is recorded; \<open>None\<close> is the \<^verbatim>\<open>FileNotFoundError\<close> of a
  program that is not installed. The field \<open>stdout_access_token\<close> of a process is
  \<^verbatim>\<open>json.loads(process.stdout)["accessToken"]\<close>, or the error raised there.
\<close>

definition utils_run_command ::
  "env \<Rightarrow> string list \<Rightarrow> 'a world_scheme \<Rightarrow> process option \<times> 'a world_scheme" where
  "utils_run_command env cmd w = (run_command env cmd, w\<lparr>commands := commands w @ [cmd]\<rparr>)"

definition get_access_token_from_cli ::
  "env \<Rightarrow> 'a world_scheme \<Rightarrow> (exn + string) \<times> 'a world_scheme" where
  "get_access_token_from_cli env w =
     (case utils_run_command env [''az'', ''account'', ''show''] w of
        (None, w1) \<Rightarrow> (Inl (CloudMinerException AzureCliNotInstalled), w1)
      | (Some process1, w1) \<Rightarrow>
          (if returncode process1 \<noteq> 0 then (Inl (CloudMinerException MustLoginWithCli), w1)
           else (case utils_run_command env [''az'', ''account'', ''get-access-token''] w1 of
                   (None, w2) \<Rightarrow> (Inl (CloudMinerException AzureCliNotInstalled), w2)
                 | (Some process2, w2) \<Rightarrow>
                     (if returncode process2 \<noteq> 0
                      then (Inl (CloudMinerException (GetTokenFailed (stderr process2))), w2)
                      else (stdout_access_token process2, w2)))))"

text \<open>The namespace \<^verbatim>\<open>parse_args\<close> returns.\<close>

record args =
  arg_path :: string
  arg_id :: string
  arg_count :: int
  arg_token :: "string option"
  arg_requirements :: "string option"
  arg_verbose :: bool

text \<open>\<^verbatim>\<open>str.lower\<close>, on the ASCII letters.\<close>

definition lower :: "string \<Rightarrow> string" where
  "lower s = map (\<lambda>c. let n = (of_char c :: nat) in
                       if 65 \<le> n \<and> n \<le> 90 then char_of (n + 32) else c) s"

definition os_path_exists :: "'a world_scheme \<Rightarrow> string \<Rightarrow> bool" where
  "os_path_exists w p \<longleftrightarrow> files w p \<noteq> None"

text \<open>The truth value of an optional string argument: given and not empty.\<close>

definition given :: "string option \<Rightarrow> bool" where
  "given a = (case a of None \<Rightarrow> False | Some v \<Rightarrow> v \<noteq> [])"

definition world_of :: "'a world_scheme \<Rightarrow> world" where
  "world_of s = \<lparr>now = now s, sent = sent s, files = files s, uuids_drawn = uuids_drawn s,
                 commands = commands s\<rparr>"

definition PowershellScriptExecutor_EXTENSION :: string where
  "PowershellScriptExecutor_EXTENSION = ''.ps1''"

definition PythonScriptExecutor_EXTENSION :: string where
  "PythonScriptExecutor_EXTENSION = ''.py''"

text \<open>\<^verbatim>\<open>access_token = args.token or get_access_token_from_cli()\<close>.\<close>

definition obtain_token :: "env \<Rightarrow> args \<Rightarrow> world \<Rightarrow> (exn + string) \<times> world" where
  "obtain_token env a w =
     (if given (arg_token a) then (Inr (the (arg_token a)), w)
      else get_access_token_from_cli env w)"

text \<open>The part of \<^verbatim>\<open>main\<close> after the session is built: the choice of the executor.\<close>

definition run_executor :: "env \<Rightarrow> args \<Rightarrow> state \<Rightarrow> (exn + unit) \<times> world" where
  "run_executor env a automation_session =
     (let file_extension = lower (get_file_extension env (arg_path a)) in
      if file_extension = PowershellScriptExecutor_EXTENSION then
        (case powershell_execute_script env (arg_count a)
                (new_executor automation_session (arg_path a) None) of
           (r, s) \<Rightarrow> (r, world_of s))
      else if file_extension = PythonScriptExecutor_EXTENSION then
        (case python_execute_script env (arg_count a)
                (new_executor automation_session (arg_path a) (arg_requirements a)) of
           (r, s) \<Rightarrow> (r, world_of s))
      else (Inl (CloudMinerException (UnsupportedExtension file_extension)),
            world_of automation_session))"

definition main :: "env \<Rightarrow> args \<Rightarrow> world \<Rightarrow> (exn + unit) \<times> world" where
  "main env a w =
     (if \<not> os_path_exists w (arg_path a)
      then (Inl (CloudMinerException (ScriptPathMissing (arg_path a))), w)
      else if given (arg_requirements a) \<and> \<not> os_path_exists w (the (arg_requirements a))
      then (Inl (CloudMinerException (RequirementsPathMissing (the (arg_requirements a)))), w)
      else (case obtain_token env a w of
              (Inl e, w1) \<Rightarrow> (Inl e, w1)
            | (Inr access_token', w1) \<Rightarrow>
                (case init env (arg_id a) access_token' w1 of
                   (Inl e, s) \<Rightarrow> (Inl e, world_of s)
                 | (Inr _, automation_session) \<Rightarrow> run_executor env a automation_session)))"

subsection \<open>Observing a run\<close>

text \<open>
  An attempt is transient when the loop of \<^verbatim>\<open>__http_request\<close> takes its first branch on
  it: the call raised one of the three exceptions that are caught (\<^verbatim>\<open>resp is None\<close>), or
  the status is in the list.
\<close>

fun transient :: "outcome \<Rightarrow> bool" where
  "transient (Raises e) \<longleftrightarrow> e = ReadTimeout \<or> e = ChunkedEncodingError \<or> e = ConnectionError"
| "transient (Responds resp) \<longleftrightarrow> transient_status (status_code resp)"

text \<open>How the loop leaves on an attempt that is not transient.\<close>

fun settle :: "outcome \<Rightarrow> exn + response" where
  "settle (Raises e) = Inl (RequestError e)"
| "settle (Responds resp) =
     (case raise_for_status resp of Inl e \<Rightarrow> Inl e | Inr _ \<Rightarrow> Inr resp)"

text \<open>
  The number of attempts a loop of \<open>n\<close> rounds makes when the next request is the
  \<open>c\<close>-th of the run, and the result it leaves with.
\<close>

fun run_length :: "env \<Rightarrow> nat \<Rightarrow> nat \<Rightarrow> nat" where
  "run_length env c 0 = 0"
| "run_length env c (Suc n) =
     (if transient (outcome (server env c)) then Suc (run_length env (Suc c) n) else 1)"

fun run_result :: "env \<Rightarrow> string \<Rightarrow> string \<Rightarrow> nat \<Rightarrow> nat \<Rightarrow> exn + response" where
  "run_result env http_method url c 0 =
     Inl (CloudMinerException (MaxRetriesReached http_method url))"
| "run_result env http_method url c (Suc n) =
     (if transient (outcome (server env c)) then run_result env http_method url (Suc c) n
      else settle (outcome (server env c)))"

text \<open>The requests sent between two states of a run.\<close>

definition sent_since :: "'a world_scheme \<Rightarrow> 'b world_scheme \<Rightarrow> request list" where
  "sent_since w w' = drop (length (sent w)) (sent w')"

text \<open>The request the helper records at time \<open>t\<close>, and the world after its reply.\<close>

definition issue :: "string \<Rightarrow> string \<Rightarrow> (string \<times> string) list \<Rightarrow> int \<Rightarrow> payload \<Rightarrow> real \<Rightarrow> request" where
  "issue m u h tm kw t = \<lparr>req_time = t, req_method = m, req_url = u, req_headers = h,
               req_timeout = tm, req_payload = kw\<rparr>"

definition answered :: "env \<Rightarrow> string \<Rightarrow> string \<Rightarrow> (string \<times> string) list \<Rightarrow> int \<Rightarrow> payload
     \<Rightarrow> 'a world_scheme \<Rightarrow> 'a world_scheme" where
  "answered env m u h tm kw w =
     w\<lparr>sent := sent w @ [issue m u h tm kw (now w)],
       now := now w + real (latency_ms (server env (length (sent w)))) / 1000\<rparr>"

text \<open>The times at which the attempts of one loop are issued, the first one at \<open>t\<close>.\<close>

fun attempt_times :: "env \<Rightarrow> nat \<Rightarrow> real \<Rightarrow> nat \<Rightarrow> real list" where
  "attempt_times env c t 0 = []"
| "attempt_times env c t (Suc n) =
     t # (if transient (outcome (server env c))
          then attempt_times env (Suc c)
                 (t + real (latency_ms (server env c)) / 1000 + SLEEP_BETWEEN_ERROR_SECONDS) n
          else [])"

text \<open>The clock when a loop of \<open>n\<close> rounds, started at \<open>t\<close>, is left.\<close>

fun run_clock :: "env \<Rightarrow> nat \<Rightarrow> real \<Rightarrow> nat \<Rightarrow> real" where
  "run_clock env c t 0 = t"
| "run_clock env c t (Suc n) =
     (if transient (outcome (server env c))
      then run_clock env (Suc c)
             (t + real (latency_ms (server env c)) / 1000 + SLEEP_BETWEEN_ERROR_SECONDS) n
      else t + real (latency_ms (server env c)) / 1000)"

subsection \<open>Concrete runs\<close>

text \<open>Small environments and a fresh session, for evaluating the definitions.\<close>

definition status_reply :: "nat \<Rightarrow> int \<Rightarrow> reply" where
  "status_reply ms code =
     \<lparr>latency_ms = ms, outcome = Responds \<lparr>status_code = code, body = None\<rparr>\<rparr>"

definition json_reply :: "nat \<Rightarrow> int \<Rightarrow> json \<Rightarrow> reply" where
  "json_reply ms code j =
     \<lparr>latency_ms = ms, outcome = Responds \<lparr>status_code = code, body = Some j\<rparr>\<rparr>"

definition scripted :: "reply list \<Rightarrow> reply \<Rightarrow> nat \<Rightarrow> reply" where
  "scripted rs d n = (if n < length rs then rs ! n else d)"

definition test_env :: "(nat \<Rightarrow> reply) \<Rightarrow> env" where
  "test_env f =
     \<lparr>server = f,
      uuid4 = (\<lambda>n. replicate (Suc n) (CHR ''a'')),
      run_command = (\<lambda>cmd. Some \<lparr>returncode = 0, stdout_access_token = Inr ''cli-token'',
                                   stderr = []\<rparr>),
      get_file_extension =
        (\<lambda>p. if CHR ''.'' \<in> set p
             then CHR ''.'' # rev (takeWhile (\<lambda>c. c \<noteq> CHR ''.'') (rev p)) else []),
      zip_file = (\<lambda>fs p n. (Inr (n @ ''.zip''), fs(n @ ''.zip'' \<mapsto> ''zip''))),
      package_to_whl = (\<lambda>fs p. (Inr (p @ ''.whl''), fs(p @ ''.whl'' \<mapsto> ''wheel''))),
      RESOURCES_DIRECTORY = ''resources''\<rparr>"

definition test_world :: world where
  "test_world = \<lparr>now = 0, sent = [], files = Map.empty, uuids_drawn = 0, commands = []\<rparr>"

definition test_session :: state where
  "test_session = new_session ''/subscriptions/x'' ''token'' test_world"



definition env_busy :: env where
  "env_busy = test_env (\<lambda>n. status_reply 100 429)"


definition env_status :: "int \<Rightarrow> env" where
  "env_status code = test_env (\<lambda>n. status_reply 100 code)"

definition env_null :: env where
  "env_null = test_env (\<lambda>n. json_reply 100 200 JNull)"

definition env_retry_then_ok :: env where
  "env_retry_then_ok = test_env (scripted [status_reply 100 429] (status_reply 100 200))"

definition env_package :: env where
  "env_package = test_env (\<lambda>n. json_reply 100 200 (JObj [(''name'', JStr ''pip'')]))"

text \<open>
  What no operation changes: the account, the token and whatever extends the session
  record (the attributes of an executor).
\<close>

definition same_attributes :: "'a state_scheme \<Rightarrow> 'a state_scheme \<Rightarrow> bool" where
  "same_attributes s s' \<longleftrightarrow>
     account_id s' = account_id s \<and> access_token s' = access_token s
     \<and> state.more s' = state.more s"

text \<open>The attributes set by the constructors, the next-request time apart.\<close>

definition session_attributes :: "'a state_scheme \<Rightarrow> string \<times> string" where
  "session_attributes s = (account_id s, access_token s)"

definition executor_attributes ::
  "'a executor_scheme \<Rightarrow> (string \<times> string) \<times> string \<times> string option" where
  "executor_attributes x = (session_attributes x, script_path x, requirements_file x)"

definition env_upload :: env where
  "env_upload = test_env (scripted [json_reply 100 200 (JStr ''https://blob/sas''),
                                   status_reply 100 201]
                            (json_reply 100 200 (JObj [(''name'', JStr ''package'')])))"

definition test_session_with_whl :: state where
  "test_session_with_whl = test_session\<lparr>files := [''dummy.whl'' \<mapsto> ''wheel'']\<rparr>"

text \<open>
  A reply reports a provisioning state when it is a response that is neither transient
  nor an error, with package data that has a provisioning state and, when that state is
  \<^verbatim>\<open>Failed\<close>, an error message.
\<close>

definition reported_body :: "env \<Rightarrow> nat \<Rightarrow> json" where
  "reported_body env n =
     (case outcome (server env n) of
        Raises e \<Rightarrow> JNull
      | Responds resp \<Rightarrow> (case body resp of None \<Rightarrow> JNull | Some j \<Rightarrow> j))"

definition reported_state :: "env \<Rightarrow> nat \<Rightarrow> json" where
  "reported_state env n =
     (case provisioning_state (reported_body env n) of Inl e \<Rightarrow> JNull | Inr v \<Rightarrow> v)"

definition reported_error :: "env \<Rightarrow> nat \<Rightarrow> json" where
  "reported_error env n =
     (case error_message (reported_body env n) of Inl e \<Rightarrow> JNull | Inr v \<Rightarrow> v)"

definition reports_state :: "env \<Rightarrow> nat \<Rightarrow> bool" where
  "reports_state env n \<longleftrightarrow>
     (case outcome (server env n) of
        Raises e \<Rightarrow> False
      | Responds resp \<Rightarrow>
          \<not> transient_status (status_code resp)
          \<and> \<not> (400 \<le> status_code resp \<and> status_code resp < 600)
          \<and> body resp \<noteq> None)
     \<and> truthy (reported_body env n)
     \<and> \<not> isl (provisioning_state (reported_body env n))
     \<and> (state_is (reported_state env n) FAILED
          \<longrightarrow> \<not> isl (error_message (reported_body env n)))"

definition terminal :: "json \<Rightarrow> bool" where
  "terminal upload_state \<longleftrightarrow> state_is upload_state SUCCEEDED \<or> state_is upload_state FAILED"

text \<open>The state after one poll that is answered at once.\<close>

definition polled :: "env \<Rightarrow> string \<Rightarrow> 'a state_scheme \<Rightarrow> 'a state_scheme" where
  "polled env package_name s =
     s\<lparr>sent := sent s @ [issue ''GET'' (get_url (''python3Packages/'' @ package_name) s)
                            [(''Authorization'', ''Bearer '' @ access_token s)]
                            HTTP_REQUEST_TIMEOUT NoPayload
                            (max (now s) (next_request_time s))],
       now := max (now s) (next_request_time s)
              + real (latency_ms (server env (length (sent s)))) / 1000,
       next_request_time := max (now s) (next_request_time s) + TIME_BETWEEN_REQUESTS_SECONDS\<rparr>"

text \<open>
  A run of the loop from \<open>s\<close> to \<open>s'\<close> with the result \<open>r\<close>, against replies that all
  report a state: what it sent, when, and how it ended.
\<close>

definition poll_run ::
  "env \<Rightarrow> string \<Rightarrow> real \<Rightarrow> 'a state_scheme \<Rightarrow> exn + unit \<Rightarrow> 'a state_scheme \<Rightarrow> bool" where
  "poll_run env package_name end_time s r s' \<longleftrightarrow>
     sent s' = sent s @ sent_since s s'
     \<and> account_id s' = account_id s
     \<and> (\<forall>q \<in> set (sent_since s s').
           req_method q = ''GET''
           \<and> req_url q = get_url (''python3Packages/'' @ package_name) s)
     \<and> (sent_since s s' \<noteq> [] \<longrightarrow>
           req_time (sent_since s s' ! 0) = max (now s) (next_request_time s))
     \<and> (\<forall>i. Suc i < length (sent_since s s') \<longrightarrow>
           req_time (sent_since s s' ! Suc i)
             = req_time (sent_since s s' ! i)
               + real (latency_ms (server env (length (sent s) + i))) / 1000
               + UPLOAD_STATE_CHECK_INTERVAL_SECONDS)
     \<and> (\<forall>i. Suc i < length (sent_since s s') \<longrightarrow>
           \<not> terminal (reported_state env (length (sent s) + i)))
     \<and> ((r = Inr ()
          \<and> (\<exists>i. length (sent_since s s') = Suc i
                \<and> state_is (reported_state env (length (sent s) + i)) SUCCEEDED))
        \<or> (\<exists>i. r = Inl (CloudMinerException
                          (UploadFailed (reported_error env (length (sent s) + i))))
                \<and> length (sent_since s s') = Suc i
                \<and> state_is (reported_state env (length (sent s) + i)) FAILED)
        \<or> (r = Inl (CloudMinerException UploadTimedOut)
            \<and> end_time \<le> now s'
            \<and> (\<forall>i<length (sent_since s s').
                  \<not> terminal (reported_state env (length (sent s) + i)))))
     \<and> (sent_since s s' = []
        \<or> UPLOAD_STATE_CHECK_INTERVAL_SECONDS * (real (length (sent_since s s')) - 1)
            < end_time - now s)"

definition package_json :: "string \<Rightarrow> json" where
  "package_json provisioningState =
     JObj [(''properties'',
            JObj [(''provisioningState'', JStr provisioningState),
                  (''error'', JObj [(''message'', JStr ''import failed'')])])]"

definition env_states :: "string list \<Rightarrow> string \<Rightarrow> env" where
  "env_states sts st =
     test_env (scripted (map (\<lambda>v. json_reply 100 200 (package_json v)) sts)
                 (json_reply 100 200 (package_json st)))"

definition test_executor :: executor where
  "test_executor = new_executor test_session ''miner.py'' None"

text \<open>
  The requests of a run that were settled, that is, whose reply was not transient: one
  for each call of the helper that did not run out of attempts. A call is the method,
  the URL and the payload of such a request.
\<close>

type_synonym call = "string \<times> string \<times> payload"





text \<open>The three calls of an upload: the storage link, the blob, the import.\<close>

definition upload_calls :: "'a state_scheme \<Rightarrow> string \<Rightarrow> string \<Rightarrow> string \<Rightarrow> call list" where
  "upload_calls s blob_url file_data path =
     [(''GET'', URL_GET_STORAGE_BLOB_format (account_id s), NoPayload),
      (''PUT'', blob_url, Data file_data),
      (''PUT'', get_url path s, Json (content_link (JStr blob_url)))]"


text \<open>The calls of \<open>n\<close> rounds of uploads under the UUIDs drawn from the \<open>d\<close>-th on.\<close>

definition round_calls ::
  "env \<Rightarrow> 'a state_scheme \<Rightarrow> string \<Rightarrow> nat \<Rightarrow> (string \<times> string) list \<Rightarrow> call list" where
  "round_calls env s prefix d ups =
     concat (map (\<lambda>i. upload_calls s (fst (ups ! i)) (snd (ups ! i))
                          (prefix @ uuid4 env (d + i)))
               [0..<length ups])"



subsection \<open>Runs of \<^verbatim>\<open>main\<close>\<close>

text \<open>Requests were added to the end of the record, and no command was run.\<close>

definition grows :: "'a world_scheme \<Rightarrow> 'b world_scheme \<Rightarrow> bool" where
  "grows w w' \<longleftrightarrow> (\<exists>new. sent w' = sent w @ new) \<and> commands w' = commands w"










section \<open>Facts about the HTTP helper\<close>

lemmas HTTPStatus_defs =
  UNAUTHORIZED_def BAD_REQUEST_def NOT_FOUND_def TOO_MANY_REQUESTS_def
  GATEWAY_TIMEOUT_def SERVICE_UNAVAILABLE_def

lemmas test_defs =
  status_reply_def json_reply_def scripted_def test_env_def test_world_def
  test_session_def new_session_def

lemma transient_status_iff:
  "transient_status code \<longleftrightarrow> code = 429 \<or> code = 503 \<or> code = 504"
  by (auto simp: transient_status_def HTTPStatus_defs)

lemma requests_request_eq:
  "requests_request env m u h tm kw s
     = (outcome (server env (length (sent s))), answered env m u h tm kw s)"
  by (simp add: requests_request_def answered_def issue_def Let_def)

lemma attempts_Suc:
  "attempts env m u h tm kw (Suc n) s =
     (if transient (outcome (server env (length (sent s))))
      then attempts env m u h tm kw n
             (sleep SLEEP_BETWEEN_ERROR_SECONDS (answered env m u h tm kw s))
      else (settle (outcome (server env (length (sent s)))), answered env m u h tm kw s))"
  by (cases "outcome (server env (length (sent s)))")
     (simp_all add: requests_request_eq split: sum.splits)

lemma sent_answered [simp]:
  "sent (answered env m u h tm kw s) = sent s @ [issue m u h tm kw (now s)]"
  by (simp add: answered_def)

lemma now_answered [simp]:
  "now (answered env m u h tm kw s) = now s + real (latency_ms (server env (length (sent s)))) / 1000"
  by (simp add: answered_def)

lemma sent_sleep [simp]: "sent (sleep d s) = sent s"
  by (simp add: sleep_def)

lemma now_sleep [simp]: "now (sleep d s) = now s + d"
  by (simp add: sleep_def)

lemma attempts_fst:
  "fst (attempts env m u h tm kw n s) = run_result env m u (length (sent s)) n"
  by (induction n arbitrary: s) (simp_all add: attempts_Suc del: attempts.simps(2))

lemma attempts_sent:
  "sent (snd (attempts env m u h tm kw n s))
     = sent s @ map (issue m u h tm kw) (attempt_times env (length (sent s)) (now s) n)"
  by (induction n arbitrary: s) (simp_all add: attempts_Suc del: attempts.simps(2))

lemma length_attempt_times: "length (attempt_times env c t n) = run_length env c n"
  by (induction n arbitrary: c t) simp_all

lemma attempt_times_step:
  "Suc i < run_length env c n \<Longrightarrow>
     attempt_times env c t n ! Suc i
       = attempt_times env c t n ! i + real (latency_ms (server env (c + i))) / 1000
           + SLEEP_BETWEEN_ERROR_SECONDS"
proof (induction n arbitrary: c t i)
  case 0
  then show ?case by simp
next
  case (Suc n)
  then have tr: "transient (outcome (server env c))"
    by (auto split: if_splits)
  show ?case
  proof (cases i)
    case 0
    with Suc.prems tr show ?thesis
      by (cases n) (auto split: if_splits)
  next
    case (Suc j)
    with Suc.prems tr have "Suc j < run_length env (Suc c) n"
      by simp
    from Suc.IH [OF this] Suc tr show ?thesis
      by simp
  qed
qed

lemma run_length_le: "run_length env c n \<le> n"
  by (induction n arbitrary: c) simp_all



lemma run_length_stops:
  "i < run_length env c n \<Longrightarrow> \<not> transient (outcome (server env (c + i)))
     \<Longrightarrow> run_length env c n = Suc i
         \<and> run_result env m u c n = settle (outcome (server env (c + i)))"
proof (induction n arbitrary: c i)
  case 0
  then show ?case by simp
next
  case (Suc n)
  show ?case
  proof (cases i)
    case 0
    with Suc.prems show ?thesis by simp
  next
    case (Suc j)
    with Suc.prems have tr: "transient (outcome (server env c))"
      by (auto split: if_splits)
    with Suc Suc.prems have "run_length env (Suc c) n = Suc j
         \<and> run_result env m u (Suc c) n = settle (outcome (server env (Suc c + j)))"
      by (intro Suc.IH) auto
    with tr Suc show ?thesis
      by simp
  qed
qed

lemma settle_not_max_retries:
  "settle out \<noteq> Inl (CloudMinerException msg)"
  by (cases out) (auto simp: raise_for_status_def split: sum.splits)

lemma run_result_max_retries:
  "run_result env m u c n = Inl (CloudMinerException (MaxRetriesReached m u))
     \<longleftrightarrow> (\<forall>i<n. transient (outcome (server env (c + i))))"
proof (induction n arbitrary: c)
  case 0
  show ?case by simp
next
  case (Suc n)
  have "(\<forall>i<Suc n. transient (outcome (server env (c + i))))
        \<longleftrightarrow> transient (outcome (server env c))
            \<and> (\<forall>i<n. transient (outcome (server env (Suc c + i))))"
    by (auto simp: less_Suc_eq_0_disj)
  with Suc.IH [of "Suc c"] show ?case
    by (simp add: settle_not_max_retries)
qed

lemma run_length_all_transient:
  "(\<forall>i<n. transient (outcome (server env (c + i)))) \<Longrightarrow> run_length env c n = n"
proof (induction n arbitrary: c)
  case 0
  show ?case by simp
next
  case (Suc n)
  then have "transient (outcome (server env c))"
    and "\<forall>i<n. transient (outcome (server env (Suc c + i)))"
    by (auto simp: less_Suc_eq_0_disj)
  with Suc.IH [of "Suc c"] show ?case
    by simp
qed

lemma wait_for_next_request_eq:
  "wait_for_next_request s =
     s\<lparr>now := max (now s) (next_request_time s),
       next_request_time := max (now s) (next_request_time s) + TIME_BETWEEN_REQUESTS_SECONDS\<rparr>"
  by (simp add: wait_for_next_request_def Let_def sleep_def max_def)

lemma http_request_fst:
  "fst (http_request env m u h a retries tm kw s)
     = run_result env m u (length (sent s)) (nat retries)"
  by (simp add: http_request_def Let_def attempts_fst wait_for_next_request_eq)

lemma http_request_sent:
  "sent (snd (http_request env m u h a retries tm kw s))
     = sent s @ map (issue m u (if a then AList.update ''Authorization''
                                        (''Bearer '' @ access_token s) h else h) tm kw)
                 (attempt_times env (length (sent s)) (now (wait_for_next_request s))
                    (nat retries))"
  by (simp add: http_request_def Let_def attempts_sent wait_for_next_request_eq)

subsection \<open>Frame and clock of the helper\<close>

lemma attempts_frame:
  "snd (attempts env m u h tm kw n s)
     = s\<lparr>sent := sent (snd (attempts env m u h tm kw n s)),
         now := now (snd (attempts env m u h tm kw n s))\<rparr>"
proof (induction n arbitrary: s)
  case 0
  show ?case by simp
next
  case (Suc n)
  let ?s1 = "sleep SLEEP_BETWEEN_ERROR_SECONDS (answered env m u h tm kw s)"
  show ?case
  proof (cases "transient (outcome (server env (length (sent s))))")
    case True
    have "snd (attempts env m u h tm kw n ?s1)
            = ?s1\<lparr>sent := sent (snd (attempts env m u h tm kw n ?s1)),
                  now := now (snd (attempts env m u h tm kw n ?s1))\<rparr>"
      by (rule Suc.IH)
    also have "\<dots> = s\<lparr>sent := sent (snd (attempts env m u h tm kw n ?s1)),
                  now := now (snd (attempts env m u h tm kw n ?s1))\<rparr>"
      by (simp add: sleep_def answered_def)
    finally show ?thesis
      using True by (simp add: attempts_Suc del: attempts.simps(2))
  next
    case False
    then show ?thesis
      by (simp add: attempts_Suc answered_def del: attempts.simps(2))
  qed
qed

lemma attempts_now: "now s \<le> now (snd (attempts env m u h tm kw n s))"
proof (induction n arbitrary: s)
  case 0
  show ?case by simp
next
  case (Suc n)
  have "now s \<le> now (sleep SLEEP_BETWEEN_ERROR_SECONDS (answered env m u h tm kw s))"
    by (simp add: SLEEP_BETWEEN_ERROR_SECONDS_def)
  also note Suc.IH
  finally show ?case
    by (simp add: attempts_Suc del: attempts.simps(2))
qed

lemma http_request_frame:
  "snd (http_request env m u h a retries tm kw s)
     = s\<lparr>sent := sent (snd (http_request env m u h a retries tm kw s)),
         now := now (snd (http_request env m u h a retries tm kw s)),
         next_request_time := max (now s) (next_request_time s) + TIME_BETWEEN_REQUESTS_SECONDS\<rparr>"
  unfolding http_request_def Let_def
  by (subst attempts_frame) (simp add: wait_for_next_request_eq)

lemma http_request_now: "max (now s) (next_request_time s) \<le> now (snd (http_request env m u h a retries tm kw s))"
  unfolding http_request_def Let_def
  using attempts_now [of "wait_for_next_request s"]
  by (simp add: wait_for_next_request_eq)

lemma run_result_cases:
  "run_result env m u c n = Inl (CloudMinerException (MaxRetriesReached m u))
   \<or> (\<exists>i. run_length env c n = Suc i \<and> \<not> transient (outcome (server env (c + i)))
          \<and> run_result env m u c n = settle (outcome (server env (c + i))))"
proof (induction n arbitrary: c)
  case 0
  show ?case by simp
next
  case (Suc n)
  show ?case
  proof (cases "transient (outcome (server env c))")
    case True
    from Suc.IH [of "Suc c"] show ?thesis
    proof
      assume "run_result env m u (Suc c) n = Inl (CloudMinerException (MaxRetriesReached m u))"
      with True show ?thesis by simp
    next
      assume "\<exists>i. run_length env (Suc c) n = Suc i
                \<and> \<not> transient (outcome (server env (Suc c + i)))
                \<and> run_result env m u (Suc c) n = settle (outcome (server env (Suc c + i)))"
      then obtain i where "run_length env (Suc c) n = Suc i"
        "\<not> transient (outcome (server env (c + Suc i)))"
        "run_result env m u (Suc c) n = settle (outcome (server env (c + Suc i)))"
        by auto
      with True have "run_length env c (Suc n) = Suc (Suc i)
          \<and> \<not> transient (outcome (server env (c + Suc i)))
          \<and> run_result env m u c (Suc n) = settle (outcome (server env (c + Suc i)))"
        by simp
      then show ?thesis by blast
    qed
  next
    case False
    then have "run_length env c (Suc n) = Suc 0
          \<and> \<not> transient (outcome (server env (c + 0)))
          \<and> run_result env m u c (Suc n) = settle (outcome (server env (c + 0)))"
      by simp
    then show ?thesis by blast
  qed
qed

lemma run_result_numeral:
  "run_result env m u c (numeral k) =
     (if transient (outcome (server env c)) then run_result env m u (Suc c) (pred_numeral k)
      else settle (outcome (server env c)))"
  by (simp add: numeral_eq_Suc)

lemma run_length_numeral:
  "run_length env c (numeral k) =
     (if transient (outcome (server env c)) then Suc (run_length env (Suc c) (pred_numeral k))
      else 1)"
  by (simp add: numeral_eq_Suc)

lemma attempt_times_numeral:
  "attempt_times env c t (numeral k) =
     t # (if transient (outcome (server env c))
          then attempt_times env (Suc c)
                 (t + real (latency_ms (server env c)) / 1000 + SLEEP_BETWEEN_ERROR_SECONDS)
                 (pred_numeral k)
          else [])"
  by (simp add: numeral_eq_Suc)

lemmas run_numeral = run_result_numeral run_length_numeral attempt_times_numeral

lemma http_request_default_fst:
  "fst (http_request_default env m u h a kw s) = run_result env m u (length (sent s)) 5"
  by (simp add: http_request_default_def http_request_fst default_retries_def)

lemma http_request_default_sent:
  "sent (snd (http_request_default env m u h a kw s))
     = sent s @ map (issue m u (if a then AList.update ''Authorization''
                                        (''Bearer '' @ access_token s) h else h)
                        HTTP_REQUEST_TIMEOUT kw)
                 (attempt_times env (length (sent s)) (max (now s) (next_request_time s)) 5)"
  by (simp add: http_request_default_def http_request_sent default_retries_def
        wait_for_next_request_eq)

lemma sent_since_http_request_default:
  "sent_since s (snd (http_request_default env m u h a kw s))
     = map (issue m u (if a then AList.update ''Authorization''
                                        (''Bearer '' @ access_token s) h else h)
                        HTTP_REQUEST_TIMEOUT kw)
                 (attempt_times env (length (sent s)) (max (now s) (next_request_time s)) 5)"
  by (simp add: sent_since_def http_request_default_sent)




lemma attempts_clock:
  "now (snd (attempts env m u h tm kw n s)) = run_clock env (length (sent s)) (now s) n"
  by (induction n arbitrary: s) (simp_all add: attempts_Suc del: attempts.simps(2))

lemma run_clock_numeral:
  "run_clock env c t (numeral k) =
     (if transient (outcome (server env c))
      then run_clock env (Suc c)
             (t + real (latency_ms (server env c)) / 1000 + SLEEP_BETWEEN_ERROR_SECONDS)
             (pred_numeral k)
      else t + real (latency_ms (server env c)) / 1000)"
  by (simp add: numeral_eq_Suc)

lemma http_request_eq:
  "http_request env m u h a retries tm kw s =
     (run_result env m u (length (sent s)) (nat retries),
      s\<lparr>sent := sent s @ map (issue m u (if a then AList.update ''Authorization''
                                        (''Bearer '' @ access_token s) h else h) tm kw)
                 (attempt_times env (length (sent s)) (max (now s) (next_request_time s))
                    (nat retries)),
        now := run_clock env (length (sent s)) (max (now s) (next_request_time s)) (nat retries),
        next_request_time := max (now s) (next_request_time s) + TIME_BETWEEN_REQUESTS_SECONDS\<rparr>)"
proof -
  have "snd (http_request env m u h a retries tm kw s) =
      s\<lparr>sent := sent s @ map (issue m u (if a then AList.update ''Authorization''
                                        (''Bearer '' @ access_token s) h else h) tm kw)
                 (attempt_times env (length (sent s)) (max (now s) (next_request_time s))
                    (nat retries)),
        now := run_clock env (length (sent s)) (max (now s) (next_request_time s)) (nat retries),
        next_request_time := max (now s) (next_request_time s) + TIME_BETWEEN_REQUESTS_SECONDS\<rparr>"
    by (subst http_request_frame)
       (simp add: http_request_sent wait_for_next_request_eq,
        simp add: http_request_def Let_def attempts_clock wait_for_next_request_eq)
  then show ?thesis
    using http_request_fst [of env m u h a retries tm kw s]
    by (metis prod.collapse)
qed

lemma http_request_default_eq:
  "http_request_default env m u h a kw s =
     (run_result env m u (length (sent s)) 5,
      s\<lparr>sent := sent s @ map (issue m u (if a then AList.update ''Authorization''
                                        (''Bearer '' @ access_token s) h else h)
                               HTTP_REQUEST_TIMEOUT kw)
                 (attempt_times env (length (sent s)) (max (now s) (next_request_time s)) 5),
        now := run_clock env (length (sent s)) (max (now s) (next_request_time s)) 5,
        next_request_time := max (now s) (next_request_time s) + TIME_BETWEEN_REQUESTS_SECONDS\<rparr>)"
  by (simp add: http_request_default_def http_request_eq default_retries_def)

lemma attempt_times_0:
  "0 < n \<Longrightarrow> attempt_times env c t n ! 0 = t"
  by (cases n) simp_all

lemma run_length_pos: "0 < n \<Longrightarrow> 0 < run_length env c n"
  by (cases n) simp_all

lemma run_clock_ge: "t \<le> run_clock env c t n"
proof (induction n arbitrary: c t)
  case 0
  show ?case by simp
next
  case (Suc n)
  have "t \<le> t + real (latency_ms (server env c)) / 1000 + SLEEP_BETWEEN_ERROR_SECONDS"
    by (simp add: SLEEP_BETWEEN_ERROR_SECONDS_def)
  also note Suc.IH
  finally show ?case by simp
qed

lemmas run_numerals = run_numeral run_clock_numeral

lemma get_python_package_eq:
  "get_python_package env package_name s =
     (case fst (http_request_default env ''GET'' (get_url (''python3Packages/'' @ package_name) s)
                  [] True NoPayload s) of
        Inl e \<Rightarrow> get_except e
      | Inr resp \<Rightarrow> (case body resp of None \<Rightarrow> Inl JSONDecodeError | Some j \<Rightarrow> Inr j),
      snd (http_request_default env ''GET'' (get_url (''python3Packages/'' @ package_name) s)
                  [] True NoPayload s))"
  by (simp add: get_python_package_def Let_def response_json_def
           split: prod.splits sum.splits option.splits)

lemma get_python_package_fst:
  "fst (get_python_package env package_name s) =
     (case run_result env ''GET'' (get_url (''python3Packages/'' @ package_name) s)
             (length (sent s)) 5 of
        Inl e \<Rightarrow> get_except e
      | Inr resp \<Rightarrow> (case body resp of None \<Rightarrow> Inl JSONDecodeError | Some j \<Rightarrow> Inr j))"
  by (simp add: get_python_package_eq http_request_default_fst)

lemma get_python_package_sent:
  "sent (snd (get_python_package env package_name s)) =
     sent s @ map (issue ''GET'' (get_url (''python3Packages/'' @ package_name) s)
                     [(''Authorization'', ''Bearer '' @ access_token s)]
                     HTTP_REQUEST_TIMEOUT NoPayload)
                (attempt_times env (length (sent s)) (max (now s) (next_request_time s)) 5)"
  by (simp add: get_python_package_eq http_request_default_sent)

subsection \<open>What the operations leave unchanged\<close>

lemma more_executor:
  fixes s :: "'a executor_scheme"
  shows "state.more s' = state.more s
     \<Longrightarrow> script_path s' = script_path s \<and> requirements_file s' = requirements_file s"
  by (cases s, cases s') simp

lemma same_http_request_default:
  "http_request_default env m u h a kw s = (r, s') \<Longrightarrow> same_attributes s s'"
  by (auto simp: http_request_default_eq same_attributes_def)

lemma same_http_request:
  "http_request env m u h a retries tm kw s = (r, s') \<Longrightarrow> same_attributes s s'"
  by (auto simp: http_request_eq same_attributes_def)

lemma same_upload_file_to_temp_storage:
  "upload_file_to_temp_storage env file_path s = (r, s') \<Longrightarrow> same_attributes s s'"
  unfolding upload_file_to_temp_storage_def Let_def
  by (auto split: prod.splits sum.splits option.splits json.splits
           dest!: same_http_request_default
           simp: same_attributes_def wait_for_next_request_eq)

lemma same_upload_powershell_module:
  "upload_powershell_module env module_name zipped s = (r, s') \<Longrightarrow> same_attributes s s'"
  unfolding upload_powershell_module_def Let_def
  by (auto split: prod.splits sum.splits
           dest!: same_http_request_default same_upload_file_to_temp_storage
           simp: same_attributes_def)

lemma same_upload_python_package:
  "upload_python_package env package_name whl_path s = (r, s') \<Longrightarrow> same_attributes s s'"
  unfolding upload_python_package_def Let_def
  by (auto split: prod.splits sum.splits
           dest!: same_http_request_default same_upload_file_to_temp_storage
           simp: same_attributes_def)

lemma same_get_python_package:
  "get_python_package env package_name s = (r, s') \<Longrightarrow> same_attributes s s'"
  unfolding get_python_package_def Let_def
  by (auto split: prod.splits sum.splits
           dest!: same_http_request_default simp: same_attributes_def)

lemma same_delete_python_package:
  "delete_python_package env package_name s = (r, s') \<Longrightarrow> same_attributes s s'"
  unfolding delete_python_package_def Let_def
  by (auto split: prod.splits sum.splits
           dest!: same_http_request_default simp: same_attributes_def)

lemma same_powershell_rounds:
  "powershell_rounds env n s = (r, s') \<Longrightarrow> same_attributes s s'"
proof (induction n arbitrary: s)
  case 0
  then show ?case by (simp add: same_attributes_def)
next
  case (Suc n)
  then show ?case
    by (auto simp: str_uuid4_def on_files_def same_attributes_def
             split: prod.splits sum.splits
             dest!: same_upload_powershell_module [unfolded same_attributes_def])
qed

lemma same_python_rounds:
  "python_rounds env n s = (r, s') \<Longrightarrow> same_attributes s s'"
proof (induction n arbitrary: s)
  case 0
  then show ?case by (simp add: same_attributes_def)
next
  case (Suc n)
  then show ?case
    by (auto simp: str_uuid4_def same_attributes_def
             split: prod.splits sum.splits
             dest!: same_upload_python_package [unfolded same_attributes_def])
qed

lemma same_delete_pip_if_exists:
  "delete_pip_if_exists env s = (r, s') \<Longrightarrow> same_attributes s s'"
  unfolding delete_pip_if_exists_def
  by (auto split: prod.splits sum.splits if_splits
           dest!: same_get_python_package same_delete_python_package
           simp: same_attributes_def)

lemma same_wait_rounds:
  "wait_rounds env package_name end_time s = (r, s') \<Longrightarrow> same_attributes s s'"
proof (induction env package_name end_time s rule: wait_rounds.induct)
  case (1 env package_name end_time s)
  show ?case
  proof (cases "now s < end_time")
    case False
    with "1.prems" show ?thesis
      by (simp add: same_attributes_def)
  next
    case True
    obtain x s1 where got: "get_python_package env package_name s = (x, s1)"
      by (cases "get_python_package env package_name s")
    then have s1: "same_attributes s s1"
      by (rule same_get_python_package)
    show ?thesis
    proof (cases "\<exists>package_data upload_state. x = Inr package_data \<and> truthy package_data
              \<and> provisioning_state package_data = Inr upload_state
              \<and> \<not> state_is upload_state SUCCEEDED \<and> \<not> state_is upload_state FAILED")
      case True
      then obtain package_data upload_state where x: "x = Inr package_data"
        "truthy package_data" "provisioning_state package_data = Inr upload_state"
        "\<not> state_is upload_state SUCCEEDED" "\<not> state_is upload_state FAILED"
        by blast
      with \<open>now s < end_time\<close> got "1.prems"
      have rec: "wait_rounds env package_name end_time
              (sleep UPLOAD_STATE_CHECK_INTERVAL_SECONDS s1) = (r, s')"
        by simp
      have "same_attributes (sleep UPLOAD_STATE_CHECK_INTERVAL_SECONDS s1) s'"
        by (rule "1.IH" [OF \<open>now s < end_time\<close> got [symmetric] x(1) _ x(3) x(4) x(5)])
           (use x(2) rec in simp_all)
      with s1 show ?thesis
        by (simp add: same_attributes_def sleep_def)
    next
      case False
      with \<open>now s < end_time\<close> got "1.prems" have "s' = s1"
        by (auto split: sum.splits if_splits)
      with s1 show ?thesis by simp
    qed
  qed
qed

lemma same_wait_for_package_upload:
  "wait_for_package_upload env package_name timeout_seconds s = (r, s')
     \<Longrightarrow> same_attributes s s'"
  unfolding wait_for_package_upload_def Let_def by (rule same_wait_rounds)

lemma same_create_whl_for_upload:
  "create_whl_for_upload env s = (r, s') \<Longrightarrow> same_attributes s s'"
  unfolding create_whl_for_upload_def Let_def on_files_def
  by (auto split: prod.splits sum.splits option.splits simp: same_attributes_def)

lemma same_python_execute_script:
  "python_execute_script env count s = (r, s') \<Longrightarrow> same_attributes s s'"
  unfolding python_execute_script_def
  by (auto split: prod.splits sum.splits
           dest!: same_delete_pip_if_exists same_create_whl_for_upload
                  same_upload_python_package same_wait_for_package_upload same_python_rounds
           simp: same_attributes_def)

lemma same_powershell_execute_script:
  "powershell_execute_script env count s = (r, s') \<Longrightarrow> same_attributes s s'"
  unfolding powershell_execute_script_def by (rule same_powershell_rounds)

lemma same_attributes_snd:
  "(\<And>r s'. f s = (r, s') \<Longrightarrow> same_attributes s s') \<Longrightarrow> same_attributes s (snd (f s))"
  by (cases "f s") simp

lemma same_session_attributes:
  "same_attributes s s' \<Longrightarrow> session_attributes s' = session_attributes s"
  by (simp add: same_attributes_def session_attributes_def)

lemma same_executor_attributes:
  fixes x :: "'a executor_scheme"
  shows "same_attributes x x' \<Longrightarrow> executor_attributes x' = executor_attributes x"
  using more_executor [of x' x]
  by (simp add: same_attributes_def session_attributes_def executor_attributes_def)

lemma upload_file_to_temp_storage_url:
  "current_temp_storage_url (snd (upload_python_package env name path s))
     = (case run_result env ''GET'' (URL_GET_STORAGE_BLOB_format (account_id s))
               (length (sent s)) 5 of
          Inl e \<Rightarrow> current_temp_storage_url s
        | Inr resp \<Rightarrow> (case body resp of
                         None \<Rightarrow> current_temp_storage_url s
                       | Some j \<Rightarrow> Some j))"
  unfolding upload_python_package_def upload_file_to_temp_storage_def Let_def
  by (auto simp: http_request_default_eq response_json_def wait_for_next_request_eq
           split: prod.splits sum.splits option.splits json.splits)

subsection \<open>The polls of the upload-wait loop\<close>

lemma poll_reports:
  assumes "reports_state env (length (sent s))"
  shows "get_python_package env package_name s
           = (Inr (reported_body env (length (sent s))), polled env package_name s)"
proof -
  from assms obtain resp j where out: "outcome (server env (length (sent s))) = Responds resp"
    and ok: "\<not> transient_status (status_code resp)"
      "\<not> (400 \<le> status_code resp \<and> status_code resp < 600)"
    and j: "body resp = Some j"
    by (auto simp: reports_state_def split: outcome.splits)
  then show ?thesis
    by (auto simp: get_python_package_eq http_request_default_eq run_numerals
          raise_for_status_def reported_body_def polled_def HTTPStatus_defs)
qed

lemma wait_rounds_reports:
  assumes "reports_state env (length (sent s))"
  shows "wait_rounds env package_name end_time s =
     (if now s < end_time then
        (if state_is (reported_state env (length (sent s))) SUCCEEDED
         then (Inr (), polled env package_name s)
         else if state_is (reported_state env (length (sent s))) FAILED
         then (Inl (CloudMinerException (UploadFailed (reported_error env (length (sent s))))),
               polled env package_name s)
         else wait_rounds env package_name end_time
                (sleep UPLOAD_STATE_CHECK_INTERVAL_SECONDS (polled env package_name s)))
      else (Inl (CloudMinerException UploadTimedOut), s))"
proof -
  from assms have "truthy (reported_body env (length (sent s)))"
    and "provisioning_state (reported_body env (length (sent s)))
           = Inr (reported_state env (length (sent s)))"
    and "state_is (reported_state env (length (sent s))) FAILED \<Longrightarrow>
           error_message (reported_body env (length (sent s)))
             = Inr (reported_error env (length (sent s)))"
    by (auto simp: reports_state_def reported_state_def reported_error_def split: sum.splits)
  then show ?thesis
    by (subst wait_rounds.simps) (simp add: poll_reports [OF assms])
qed

lemma get_url_account: "account_id s' = account_id s \<Longrightarrow> get_url p s' = get_url p s"
  by (simp add: get_url_def)

lemma sent_since_self [simp]: "sent_since s s = []"
  by (simp add: sent_since_def)

lemma poll_run_timeout:
  "\<not> now s < end_time \<Longrightarrow>
     poll_run env package_name end_time s (Inl (CloudMinerException UploadTimedOut)) s"
  by (simp add: poll_run_def)

lemma polled_simps [simp]:
  "sent (polled env package_name s)
     = sent s @ [issue ''GET'' (get_url (''python3Packages/'' @ package_name) s)
          [(''Authorization'', ''Bearer '' @ access_token s)] HTTP_REQUEST_TIMEOUT NoPayload
          (max (now s) (next_request_time s))]"
  "account_id (polled env package_name s) = account_id s"
  "now (polled env package_name s)
     = max (now s) (next_request_time s)
       + real (latency_ms (server env (length (sent s)))) / 1000"
  "next_request_time (polled env package_name s)
     = max (now s) (next_request_time s) + TIME_BETWEEN_REQUESTS_SECONDS"
  by (simp_all add: polled_def)

lemma sleep_simps [simp]:
  "account_id (sleep d s) = account_id s"
  "next_request_time (sleep d s) = next_request_time s"
  by (simp_all add: sleep_def)

lemma sent_since_polled:
  "sent_since s (polled env package_name s)
     = [issue ''GET'' (get_url (''python3Packages/'' @ package_name) s)
          [(''Authorization'', ''Bearer '' @ access_token s)] HTTP_REQUEST_TIMEOUT NoPayload
          (max (now s) (next_request_time s))]"
  by (simp add: sent_since_def)

lemma poll_run_succeeded:
  "now s < end_time \<Longrightarrow> state_is (reported_state env (length (sent s))) SUCCEEDED \<Longrightarrow>
     poll_run env package_name end_time s (Inr ()) (polled env package_name s)"
  by (simp add: poll_run_def sent_since_polled issue_def)

lemma state_is_exclusive: "state_is v FAILED \<Longrightarrow> \<not> state_is v SUCCEEDED"
  by (auto simp: state_is_def member_eq_str_def split: json.splits)

lemma poll_run_failed:
  "now s < end_time \<Longrightarrow> state_is (reported_state env (length (sent s))) FAILED \<Longrightarrow>
     poll_run env package_name end_time s
       (Inl (CloudMinerException (UploadFailed (reported_error env (length (sent s))))))
       (polled env package_name s)"
  by (simp add: poll_run_def sent_since_polled issue_def state_is_exclusive)

lemma poll_run_step:
  assumes running: "now s < end_time"
    and going: "\<not> terminal (reported_state env (length (sent s)))"
    and rec: "poll_run env package_name end_time
                (sleep UPLOAD_STATE_CHECK_INTERVAL_SECONDS (polled env package_name s)) r s'"
  shows "poll_run env package_name end_time s r s'"
proof -
  define c where "c = length (sent s)"
  define t0 where "t0 = max (now s) (next_request_time s)"
  define url where "url = get_url (''python3Packages/'' @ package_name) s"
  define q0 where "q0 = issue ''GET'' url [(''Authorization'', ''Bearer '' @ access_token s)]
                          HTTP_REQUEST_TIMEOUT NoPayload t0"
  define s2 where "s2 = sleep UPLOAD_STATE_CHECK_INTERVAL_SECONDS (polled env package_name s)"
  define polls where "polls = sent_since s2 s'"
  define k where "k = length polls"
  have s2: "sent s2 = sent s @ [q0]" "account_id s2 = account_id s"
    "now s2 = t0 + real (latency_ms (server env c)) / 1000 + UPLOAD_STATE_CHECK_INTERVAL_SECONDS"
    "next_request_time s2 = t0 + TIME_BETWEEN_REQUESTS_SECONDS"
    by (simp_all add: s2_def q0_def url_def t0_def c_def)
  have len2: "length (sent s2) = Suc c"
    by (simp add: s2 c_def)
  have max2: "max (now s2) (next_request_time s2)
      = t0 + real (latency_ms (server env c)) / 1000 + UPLOAD_STATE_CHECK_INTERVAL_SECONDS"
    by (simp add: s2 TIME_BETWEEN_REQUESTS_SECONDS_def UPLOAD_STATE_CHECK_INTERVAL_SECONDS_def)
  have url2: "get_url (''python3Packages/'' @ package_name) s2 = url"
    unfolding url_def by (rule get_url_account) (rule s2)
  have rec2: "poll_run env package_name end_time s2 r s'"
    using rec by (simp add: s2_def)
  have R0: "sent s' = sent s2 @ polls" and R1: "account_id s' = account_id s2"
    and R2: "\<forall>q \<in> set polls. req_method q = ''GET'' \<and> req_url q = url"
    using rec2 unfolding poll_run_def polls_def url2 by blast+
  have R3: "polls \<noteq> [] \<Longrightarrow> req_time (polls ! 0)
      = t0 + real (latency_ms (server env c)) / 1000 + UPLOAD_STATE_CHECK_INTERVAL_SECONDS"
    using rec2 unfolding poll_run_def polls_def max2 by blast
  have R4: "Suc j < k \<Longrightarrow> req_time (polls ! Suc j)
             = req_time (polls ! j) + real (latency_ms (server env (Suc c + j))) / 1000
               + UPLOAD_STATE_CHECK_INTERVAL_SECONDS" for j
    using rec2 unfolding poll_run_def polls_def k_def len2 by blast
  have R5: "Suc j < k \<Longrightarrow> \<not> terminal (reported_state env (Suc c + j))" for j
    using rec2 unfolding poll_run_def polls_def k_def len2 by blast
  have R6: "(r = Inr ()
          \<and> (\<exists>i. k = Suc i \<and> state_is (reported_state env (Suc c + i)) SUCCEEDED))
        \<or> (\<exists>i. r = Inl (CloudMinerException (UploadFailed (reported_error env (Suc c + i))))
                \<and> k = Suc i \<and> state_is (reported_state env (Suc c + i)) FAILED)
        \<or> (r = Inl (CloudMinerException UploadTimedOut) \<and> end_time \<le> now s'
            \<and> (\<forall>i<k. \<not> terminal (reported_state env (Suc c + i))))"
    using rec2 unfolding poll_run_def polls_def k_def len2 by blast
  have R7: "polls = [] \<or> UPLOAD_STATE_CHECK_INTERVAL_SECONDS * (real k - 1)
            < end_time - now s2"
    using rec2 unfolding poll_run_def polls_def k_def by blast
  from R0 have sent': "sent s' = sent s @ q0 # polls"
    by (simp add: s2)
  then have since: "sent_since s s' = q0 # polls"
    by (simp add: sent_since_def)
  have 0: "sent s' = sent s @ sent_since s s'"
    by (simp add: since sent')
  have 1: "account_id s' = account_id s"
    using R1 by (simp add: s2)
  have 2: "\<forall>q \<in> set (sent_since s s'). req_method q = ''GET'' \<and> req_url q = url"
    using R2 by (simp add: since q0_def issue_def)
  have 3: "req_time (sent_since s s' ! 0) = t0"
    by (simp add: since q0_def issue_def)
  have 4: "req_time (sent_since s s' ! Suc i)
             = req_time (sent_since s s' ! i) + real (latency_ms (server env (c + i))) / 1000
               + UPLOAD_STATE_CHECK_INTERVAL_SECONDS"
    if "Suc i < length (sent_since s s')" for i
  proof (cases i)
    case 0
    with that have "polls \<noteq> []"
      by (auto simp: since)
    from R3 [OF this] 0 show ?thesis
      by (simp add: since q0_def issue_def)
  next
    case (Suc j)
    with that have "Suc j < k"
      by (simp add: since k_def)
    from R4 [OF this] show ?thesis
      by (simp add: since Suc)
  qed
  have 5: "\<not> terminal (reported_state env (c + i))" if "Suc i < length (sent_since s s')" for i
  proof (cases i)
    case 0
    with going show ?thesis by (simp add: c_def)
  next
    case (Suc j)
    with that have "Suc j < k"
      by (simp add: since k_def)
    from R5 [OF this] show ?thesis by (simp add: Suc)
  qed
  have all: "\<forall>i<Suc k. \<not> terminal (reported_state env (c + i))"
    if "\<forall>i<k. \<not> terminal (reported_state env (Suc c + i))"
  proof (intro allI impI)
    fix i assume "i < Suc k"
    with that going show "\<not> terminal (reported_state env (c + i))"
      by (cases i) (simp_all add: c_def)
  qed
  from R6 have 6: "(r = Inr ()
          \<and> (\<exists>i. length (sent_since s s') = Suc i
                \<and> state_is (reported_state env (c + i)) SUCCEEDED))
        \<or> (\<exists>i. r = Inl (CloudMinerException (UploadFailed (reported_error env (c + i))))
                \<and> length (sent_since s s') = Suc i
                \<and> state_is (reported_state env (c + i)) FAILED)
        \<or> (r = Inl (CloudMinerException UploadTimedOut) \<and> end_time \<le> now s'
            \<and> (\<forall>i<length (sent_since s s'). \<not> terminal (reported_state env (c + i))))"
  proof (elim disjE conjE exE)
    fix i assume "r = Inr ()" "k = Suc i" "state_is (reported_state env (Suc c + i)) SUCCEEDED"
    then have "r = Inr () \<and> length (sent_since s s') = Suc (Suc i)
                \<and> state_is (reported_state env (c + Suc i)) SUCCEEDED"
      by (simp add: since k_def)
    then show ?thesis by blast
  next
    fix i assume "r = Inl (CloudMinerException (UploadFailed (reported_error env (Suc c + i))))"
      "k = Suc i" "state_is (reported_state env (Suc c + i)) FAILED"
    then have "r = Inl (CloudMinerException (UploadFailed (reported_error env (c + Suc i))))
                \<and> length (sent_since s s') = Suc (Suc i)
                \<and> state_is (reported_state env (c + Suc i)) FAILED"
      by (simp add: since k_def)
    then show ?thesis by blast
  next
    assume "r = Inl (CloudMinerException UploadTimedOut)" "end_time \<le> now s'"
      "\<forall>i<k. \<not> terminal (reported_state env (Suc c + i))"
    with all show ?thesis
      by (simp add: since k_def)
  qed
  have "now s \<le> t0"
    by (simp add: t0_def)
  with R7 running have 7: "UPLOAD_STATE_CHECK_INTERVAL_SECONDS
                        * (real (length (sent_since s s')) - 1) < end_time - now s"
    by (auto simp: since k_def s2 UPLOAD_STATE_CHECK_INTERVAL_SECONDS_def)
  show ?thesis
    unfolding poll_run_def
  proof (intro conjI)
    show "sent s' = sent s @ sent_since s s'" by (rule 0)
    show "account_id s' = account_id s" by (rule 1)
    show "\<forall>q\<in>set (sent_since s s'). req_method q = ''GET'' \<and>
            req_url q = get_url (''python3Packages/'' @ package_name) s"
      using 2 by (simp add: url_def)
    show "sent_since s s' \<noteq> [] \<longrightarrow>
            req_time (sent_since s s' ! 0) = max (now s) (next_request_time s)"
      using 3 by (simp add: t0_def)
    show "\<forall>i. Suc i < length (sent_since s s') \<longrightarrow>
        req_time (sent_since s s' ! Suc i) =
        req_time (sent_since s s' ! i) + real (latency_ms (server env (length (sent s) + i))) / 1000
          + UPLOAD_STATE_CHECK_INTERVAL_SECONDS"
      using 4 by (simp add: c_def)
    show "\<forall>i. Suc i < length (sent_since s s') \<longrightarrow>
        \<not> terminal (reported_state env (length (sent s) + i))"
      using 5 by (simp add: c_def)
    show "r = Inr () \<and>
    (\<exists>i. length (sent_since s s') = Suc i \<and>
         state_is (reported_state env (length (sent s) + i)) SUCCEEDED) \<or>
    (\<exists>i. r = Inl (CloudMinerException (UploadFailed (reported_error env (length (sent s) + i)))) \<and>
         length (sent_since s s') = Suc i \<and>
         state_is (reported_state env (length (sent s) + i)) FAILED) \<or>
    r = Inl (CloudMinerException UploadTimedOut) \<and>
    end_time \<le> now s' \<and>
    (\<forall>i<length (sent_since s s'). \<not> terminal (reported_state env (length (sent s) + i)))"
      using 6 unfolding c_def .
    show "sent_since s s' = [] \<or>
    UPLOAD_STATE_CHECK_INTERVAL_SECONDS * (real (length (sent_since s s')) - 1) < end_time - now s"
      using 7 by simp
  qed
qed

lemma wait_rounds_poll_run:
  assumes "\<forall>n. reports_state env n"
  shows "poll_run env package_name end_time s
           (fst (wait_rounds env package_name end_time s))
           (snd (wait_rounds env package_name end_time s))"
  using assms
proof (induction env package_name end_time s rule: wait_rounds.induct)
  case (1 env package_name end_time s)
  from "1.prems" have rep: "reports_state env (length (sent s))"
    by simp
  note eq = wait_rounds_reports [OF rep, where package_name = package_name
      and end_time = end_time]
  from rep have body: "truthy (reported_body env (length (sent s)))"
    "provisioning_state (reported_body env (length (sent s)))
           = Inr (reported_state env (length (sent s)))"
    by (auto simp: reports_state_def reported_state_def split: sum.splits)
  show ?case
  proof (cases "now s < end_time")
    case False
    then show ?thesis
      by (simp add: eq poll_run_timeout del: wait_rounds.simps)
  next
    case True
    show ?thesis
    proof (cases "terminal (reported_state env (length (sent s)))")
      case True
      with \<open>now s < end_time\<close> show ?thesis
        by (auto simp: eq terminal_def poll_run_succeeded poll_run_failed state_is_exclusive
                 simp del: wait_rounds.simps)
    next
      case False
      have "poll_run env package_name end_time
              (sleep UPLOAD_STATE_CHECK_INTERVAL_SECONDS (polled env package_name s))
              (fst (wait_rounds env package_name end_time
                 (sleep UPLOAD_STATE_CHECK_INTERVAL_SECONDS (polled env package_name s))))
              (snd (wait_rounds env package_name end_time
                 (sleep UPLOAD_STATE_CHECK_INTERVAL_SECONDS (polled env package_name s))))"
        by (rule "1.IH" [OF \<open>now s < end_time\<close> poll_reports [OF rep, symmetric] refl _ body(2)])
           (use body(1) False "1.prems" in \<open>simp_all add: terminal_def\<close>)
      with \<open>now s < end_time\<close> False show ?thesis
        by (simp add: eq terminal_def poll_run_step del: wait_rounds.simps)
    qed
  qed
qed

lemma reports_env_states: "reports_state (env_states sts st) n"
  by (simp add: reports_state_def reported_body_def reported_state_def env_states_def
        test_defs package_json_def provisioning_state_def error_message_def
        transient_status_iff)

lemma polls_bound:
  assumes "k = 0 \<or> UPLOAD_STATE_CHECK_INTERVAL_SECONDS * (real k - 1) < t"
  shows "k \<le> nat \<lceil>t / UPLOAD_STATE_CHECK_INTERVAL_SECONDS\<rceil>"
proof (cases "k = 0")
  case True
  then show ?thesis by simp
next
  case False
  with assms have "real k - 1 < t / 20"
    by (simp add: UPLOAD_STATE_CHECK_INTERVAL_SECONDS_def)
  also have "\<dots> \<le> real_of_int \<lceil>t / 20\<rceil>"
    by (rule le_of_int_ceiling)
  finally have "int k - 1 < \<lceil>t / 20\<rceil>"
    by linarith
  then show ?thesis
    by (simp add: UPLOAD_STATE_CHECK_INTERVAL_SECONDS_def)
qed

lemma wait_rounds_env_states:
  "wait_rounds (env_states sts st) package_name end_time s =
     (if now s < end_time then
        (if state_is (reported_state (env_states sts st) (length (sent s))) SUCCEEDED
         then (Inr (), polled (env_states sts st) package_name s)
         else if state_is (reported_state (env_states sts st) (length (sent s))) FAILED
         then (Inl (CloudMinerException
                      (UploadFailed (reported_error (env_states sts st) (length (sent s))))),
               polled (env_states sts st) package_name s)
         else wait_rounds (env_states sts st) package_name end_time
                (sleep UPLOAD_STATE_CHECK_INTERVAL_SECONDS
                   (polled (env_states sts st) package_name s)))
      else (Inl (CloudMinerException UploadTimedOut), s))"
  by (rule wait_rounds_reports) (rule reports_env_states)

lemma reported_env_states:
  "reported_state (env_states sts st) n = JStr (if n < length sts then sts ! n else st)"
  "reported_error (env_states sts st) n = JStr ''import failed''"
  by (simp_all add: reported_body_def reported_state_def reported_error_def env_states_def
        test_defs package_json_def provisioning_state_def error_message_def)

lemma latency_env_states: "latency_ms (server (env_states sts st) n) = 100"
  by (simp add: env_states_def test_defs)

subsection \<open>The calls of a run\<close>
























lemma round_calls_Nil [simp]: "round_calls env s prefix d [] = []"
  by (simp add: round_calls_def)














lemma init_commands: "commands (snd (init env account_id' access_token' w)) = commands w"
  by (auto simp: init_def Let_def http_request_default_eq new_session_def
           split: prod.splits sum.splits)


lemma obtain_token_now: "now (snd (obtain_token env a w)) = now w"
  by (auto simp: obtain_token_def get_access_token_from_cli_def utils_run_command_def
           split: option.splits)



lemma same_commands_http_request_default:
  "commands (snd (http_request_default env m u h a kw s)) = commands s"
  by (simp add: http_request_default_eq)

lemma grows_refl [simp]: "grows w w"
  by (simp add: grows_def)

lemma grows_same: "sent w' = sent w \<Longrightarrow> commands w' = commands w \<Longrightarrow> grows w w'"
  by (simp add: grows_def)














lemma world_of_simps [simp]:
  "sent (world_of s) = sent s" "commands (world_of s) = commands s"
  "uuids_drawn (world_of s) = uuids_drawn s" "files (world_of s) = files s"
  "now (world_of s) = now s"
  by (simp_all add: world_of_def)

lemma new_executor_simps [simp]:
  "sent (new_executor s p q) = sent s" "commands (new_executor s p q) = commands s"
  "uuids_drawn (new_executor s p q) = uuids_drawn s" "account_id (new_executor s p q) = account_id s"
  by (simp_all add: new_executor_def)

lemma new_session_simps [simp]:
  "sent (new_session i t w) = sent w" "commands (new_session i t w) = commands w"
  "uuids_drawn (new_session i t w) = uuids_drawn w" "account_id (new_session i t w) = i"
  "now (new_session i t w) = now w" "next_request_time (new_session i t w) = 0"
  "access_token (new_session i t w) = t"
  by (simp_all add: new_session_def)


lemma sent_since_cong:
  "sent a = sent a' \<Longrightarrow> sent b = sent b' \<Longrightarrow> sent_since a b = sent_since a' b'"
  by (simp add: sent_since_def)





















section \<open>The claims\<close>

text \<open>
  C6. The enum \<^verbatim>\<open>UPLOAD_STATE\<close> has exactly seven members, their values are the seven
  strings Failed, Creating, Succeeded, ContentValidated, ContentDownloaded,
  ConnectionTypeImported and RunningImportModuleRunbook, all different, and a member
  compares equal to a string exactly when the string is its value.
\<close>

theorem upload_state_enum:
  "set UPLOAD_STATE_members = UNIV
   \<and> distinct UPLOAD_STATE_members
   \<and> length UPLOAD_STATE_members = 7
   \<and> map upload_state_value UPLOAD_STATE_members
       = [''Failed'', ''Creating'', ''Succeeded'', ''ContentValidated'', ''ContentDownloaded'',
          ''ConnectionTypeImported'', ''RunningImportModuleRunbook'']
   \<and> distinct (map upload_state_value UPLOAD_STATE_members)
   \<and> (\<forall>m. member_eq_str m (upload_state_value m))
   \<and> (\<forall>m v. member_eq_str m v \<longleftrightarrow> v = upload_state_value m)"
proof -
  have "m \<in> set UPLOAD_STATE_members" for m
    by (cases m) (simp_all add: UPLOAD_STATE_members_def)
  then have "set UPLOAD_STATE_members = UNIV"
    by auto
  moreover have "distinct UPLOAD_STATE_members" "length UPLOAD_STATE_members = 7"
    by (simp_all add: UPLOAD_STATE_members_def)
  moreover have "map upload_state_value UPLOAD_STATE_members
       = [''Failed'', ''Creating'', ''Succeeded'', ''ContentValidated'', ''ContentDownloaded'',
          ''ConnectionTypeImported'', ''RunningImportModuleRunbook'']"
    by (simp add: UPLOAD_STATE_members_def)
  moreover from this have "distinct (map upload_state_value UPLOAD_STATE_members)"
    by simp
  moreover have "\<forall>m. member_eq_str m (upload_state_value m)"
    and "\<forall>m v. member_eq_str m v \<longleftrightarrow> v = upload_state_value m"
    by (auto simp: member_eq_str_def)
  ultimately show ?thesis
    by blast
qed

text \<open>
  C2. The loop of \<^verbatim>\<open>__http_request\<close> makes at most \<^verbatim>\<open>retries\<close> attempts (5 when the caller
  leaves the default), and it raises the \<^verbatim>\<open>CloudMinerException\<close> of the maximum retry
  count exactly when every one of these attempts is transient; it has then made all of
  them. The helper is a total function: every call returns a response or raises.
\<close>

theorem http_request_bounded:
  assumes "http_request env m u h a retries tm kw s = (r, s')"
  shows "sent s' = sent s @ sent_since s s'
       \<and> length (sent_since s s') \<le> nat retries
       \<and> (r = Inl (CloudMinerException (MaxRetriesReached m u))
            \<longleftrightarrow> (\<forall>i<nat retries. transient (outcome (server env (length (sent s) + i)))))
       \<and> ((\<forall>i<nat retries. transient (outcome (server env (length (sent s) + i))))
            \<longrightarrow> length (sent_since s s') = nat retries)
       \<and> http_request_default env m u h a kw s
           = http_request env m u h a 5 HTTP_REQUEST_TIMEOUT kw s"
proof -
  have r: "r = run_result env m u (length (sent s)) (nat retries)"
    using assms http_request_fst [of env m u h a retries tm kw s] by simp
  have new: "sent s' = sent s @ sent_since s s'"
    using assms http_request_sent [of env m u h a retries tm kw s]
    by (simp add: sent_since_def)
  have len: "length (sent_since s s') = run_length env (length (sent s)) (nat retries)"
    using assms http_request_sent [of env m u h a retries tm kw s]
    by (simp add: sent_since_def length_attempt_times)
  have "length (sent_since s s') \<le> nat retries"
    by (simp add: len run_length_le)
  moreover have "r = Inl (CloudMinerException (MaxRetriesReached m u))
            \<longleftrightarrow> (\<forall>i<nat retries. transient (outcome (server env (length (sent s) + i))))"
    unfolding r by (rule run_result_max_retries)
  moreover have "(\<forall>i<nat retries. transient (outcome (server env (length (sent s) + i))))
            \<longrightarrow> length (sent_since s s') = nat retries"
    by (simp add: len run_length_all_transient)
  moreover have "http_request_default env m u h a kw s
           = http_request env m u h a 5 HTTP_REQUEST_TIMEOUT kw s"
    by (simp add: default_retries_def http_request_default_def)
  ultimately show ?thesis
    using new by blast
qed

theorem http_request_bounded_witness:
  "fst (http_request env_busy ''GET'' ''u'' [] True 5 5 NoPayload test_session)
     = Inl (CloudMinerException (MaxRetriesReached ''GET'' ''u''))
   \<and> length (sent_since test_session
               (snd (http_request env_busy ''GET'' ''u'' [] True 5 5 NoPayload test_session))) = 5
   \<and> transient (outcome (server env_busy 0))
   \<and> transient (outcome (server env_busy 4))"
  using http_request_bounded [of env_busy "''GET''" "''u''" "[]" True 5 5 NoPayload test_session,
      OF surjective_pairing]
  by (simp add: env_busy_def test_defs transient_status_iff)






text \<open>
  C8, as the code has it. \<^verbatim>\<open>__wait_for_next_request\<close> runs once for a call of the helper,
  before the loop: the first attempt of a call is issued at the recorded next-request
  time, or at once when that time is past, and before it is sent the next-request time
  becomes this time plus \<^verbatim>\<open>TIME_BETWEEN_REQUESTS_SECONDS\<close> (0.5 s). So the first attempts
  of two consecutive calls of a session are at least 0.5 s apart, and the attempts within
  one call at least \<^verbatim>\<open>SLEEP_BETWEEN_ERROR_SECONDS\<close>.
\<close>

theorem request_spacing:
  assumes "http_request env m u h a retries tm kw s = (r, s')" and "0 < retries"
    and "http_request env m2 u2 h2 a2 retries2 tm2 kw2 s' = (r2, s'')" and "0 < retries2"
  shows "TIME_BETWEEN_REQUESTS_SECONDS = 1 / 2
       \<and> sent_since s s' \<noteq> [] \<and> sent_since s' s'' \<noteq> []
       \<and> req_time (sent_since s s' ! 0) = max (now s) (next_request_time s)
       \<and> next_request_time s' = req_time (sent_since s s' ! 0) + TIME_BETWEEN_REQUESTS_SECONDS
       \<and> req_time (sent_since s s' ! 0) + TIME_BETWEEN_REQUESTS_SECONDS
            \<le> req_time (sent_since s' s'' ! 0)
       \<and> (\<forall>i. Suc i < length (sent_since s s') \<longrightarrow>
              req_time (sent_since s s' ! i) + SLEEP_BETWEEN_ERROR_SECONDS
                \<le> req_time (sent_since s s' ! Suc i))"
proof -
  define t1 where "t1 = max (now s) (next_request_time s)"
  define t2 where "t2 = max (now s') (next_request_time s')"
  define h1 where "h1 = (if a then AList.update ''Authorization''
                                        (''Bearer '' @ access_token s) h else h)"
  define h3 where "h3 = (if a2 then AList.update ''Authorization''
                                        (''Bearer '' @ access_token s') h2 else h2)"
  have pos: "0 < nat retries" "0 < nat retries2"
    using assms(2,4) by simp_all
  have s': "s' = s\<lparr>sent := sent s @ map (issue m u h1 tm kw)
                 (attempt_times env (length (sent s)) t1 (nat retries)),
        now := run_clock env (length (sent s)) t1 (nat retries),
        next_request_time := t1 + TIME_BETWEEN_REQUESTS_SECONDS\<rparr>"
    using assms(1) by (simp add: http_request_eq t1_def h1_def)
  have s'': "s'' = s'\<lparr>sent := sent s' @ map (issue m2 u2 h3 tm2 kw2)
                 (attempt_times env (length (sent s')) t2 (nat retries2)),
        now := run_clock env (length (sent s')) t2 (nat retries2),
        next_request_time := t2 + TIME_BETWEEN_REQUESTS_SECONDS\<rparr>"
    using assms(3) by (simp add: http_request_eq t2_def h3_def)
  have since1: "sent_since s s' = map (issue m u h1 tm kw)
                 (attempt_times env (length (sent s)) t1 (nat retries))"
    by (subst s') (simp add: sent_since_def)
  have since2: "sent_since s' s'' = map (issue m2 u2 h3 tm2 kw2)
                 (attempt_times env (length (sent s')) t2 (nat retries2))"
    by (subst s'') (simp add: sent_since_def)
  have len1: "length (sent_since s s') = run_length env (length (sent s)) (nat retries)"
    and len2: "length (sent_since s' s'') = run_length env (length (sent s')) (nat retries2)"
    by (simp_all add: since1 since2 length_attempt_times)
  have ne: "sent_since s s' \<noteq> []" "sent_since s' s'' \<noteq> []"
    using run_length_pos [OF pos(1), of env "length (sent s)"]
      run_length_pos [OF pos(2), of env "length (sent s')"] len1 len2
    by auto
  have first1: "req_time (sent_since s s' ! 0) = t1"
    using ne(1) pos(1) by (simp add: since1 attempt_times_0 issue_def)
  have first2: "req_time (sent_since s' s'' ! 0) = t2"
    using ne(2) pos(2) by (simp add: since2 attempt_times_0 issue_def)
  have nrt: "next_request_time s' = t1 + TIME_BETWEEN_REQUESTS_SECONDS"
    by (subst s') simp
  have "t1 + TIME_BETWEEN_REQUESTS_SECONDS \<le> t2"
    by (simp add: t2_def nrt)
  moreover have "\<forall>i. Suc i < length (sent_since s s') \<longrightarrow>
              req_time (sent_since s s' ! i) + SLEEP_BETWEEN_ERROR_SECONDS
                \<le> req_time (sent_since s s' ! Suc i)"
  proof (intro allI impI)
    fix i
    assume i: "Suc i < length (sent_since s s')"
    then have "attempt_times env (length (sent s)) t1 (nat retries) ! Suc i
       = attempt_times env (length (sent s)) t1 (nat retries) ! i
           + real (latency_ms (server env (length (sent s) + i))) / 1000
           + SLEEP_BETWEEN_ERROR_SECONDS"
      by (intro attempt_times_step) (simp add: len1)
    with i show "req_time (sent_since s s' ! i) + SLEEP_BETWEEN_ERROR_SECONDS
                \<le> req_time (sent_since s s' ! Suc i)"
      by (simp add: since1 issue_def)
  qed
  ultimately show ?thesis
    using ne first1 first2 nrt
    by (simp add: t1_def TIME_BETWEEN_REQUESTS_SECONDS_def)
qed

text \<open>
  Two calls, the first answered at once: the requests are issued at 0 and 0.5, although
  the second call starts at 0.1.
\<close>

theorem request_spacing_witness:
  "fst (http_request (env_status 200) ''GET'' ''u'' [] True 5 5 NoPayload test_session)
     = Inr \<lparr>status_code = 200, body = None\<rparr>
   \<and> now (snd (http_request (env_status 200) ''GET'' ''u'' [] True 5 5 NoPayload
                   test_session)) = 1 / 10
   \<and> map req_time
       (sent (snd (http_request (env_status 200) ''PUT'' ''v'' [] True 5 5 NoPayload
          (snd (http_request (env_status 200) ''GET'' ''u'' [] True 5 5 NoPayload
                  test_session)))))
     = [0, 1 / 2]"
  using request_spacing [of "env_status 200" "''GET''" "''u''" "[]" True 5 5 NoPayload
      test_session _ _ "''PUT''" "''v''" "[]" True 5 5 NoPayload,
      OF surjective_pairing _ surjective_pairing]
  by (simp add: http_request_eq run_numerals issue_def env_status_def test_defs
        transient_status_iff raise_for_status_def TIME_BETWEEN_REQUESTS_SECONDS_def
        SLEEP_BETWEEN_ERROR_SECONDS_def)

text \<open>
  C8 as stated fails after a retry. The first call is answered 429 after 0.1 s, sleeps
  10 s, and its second attempt, issued at 10.1, is answered after 0.1 s; the next-request
  time is still 0.5, so the next call issues its request at 10.2, which is 0.1 s
  after the request before it.
\<close>

theorem request_spacing_fails_after_retry:
  "map req_time
       (sent (snd (http_request env_retry_then_ok ''PUT'' ''v'' [] True 5 5 NoPayload
          (snd (http_request env_retry_then_ok ''GET'' ''u'' [] True 5 5 NoPayload
                  test_session)))))
     = [0, 101 / 10, 51 / 5]
   \<and> next_request_time (snd (http_request env_retry_then_ok ''GET'' ''u'' [] True 5 5 NoPayload
                  test_session)) = 1 / 2
   \<and> (51 / 5 - 101 / 10 :: real) < TIME_BETWEEN_REQUESTS_SECONDS"
  by (simp add: http_request_eq run_numerals issue_def env_retry_then_ok_def test_defs
        transient_status_iff raise_for_status_def TIME_BETWEEN_REQUESTS_SECONDS_def
        SLEEP_BETWEEN_ERROR_SECONDS_def)

text \<open>
  C9, as the code has it. \<^verbatim>\<open>get_python_package\<close> sends \<^verbatim>\<open>GET\<close> requests to the URL of the
  package. When the attempt that ends the helper's loop is answered 404, the result is
  \<^verbatim>\<open>None\<close>; when it is answered with another status from 400 to 599, that \<^verbatim>\<open>HTTPError\<close>
  is raised unchanged; otherwise the result is the JSON document of the response. The
  result is \<^verbatim>\<open>None\<close> only after a 404 or after a response whose JSON document is
  \<^verbatim>\<open>null\<close>.
\<close>

theorem get_python_package_result:
  assumes "get_python_package env package_name s = (r, s')"
  shows "(\<forall>q \<in> set (sent_since s s').
            req_method q = ''GET''
            \<and> req_url q = get_url (''python3Packages/'' @ package_name) s)
       \<and> (\<forall>i resp. i < length (sent_since s s')
              \<and> outcome (server env (length (sent s) + i)) = Responds resp
              \<and> \<not> transient_status (status_code resp)
            \<longrightarrow> r = (if status_code resp = 404 then Inr JNull
                     else if 400 \<le> status_code resp \<and> status_code resp < 600
                       then Inl (HTTPError resp)
                     else (case body resp of
                             None \<Rightarrow> Inl JSONDecodeError
                           | Some package_data \<Rightarrow> Inr package_data)))
       \<and> (r = Inr JNull \<longrightarrow>
            (\<exists>i resp. i < length (sent_since s s')
                \<and> outcome (server env (length (sent s) + i)) = Responds resp
                \<and> (status_code resp = 404
                     \<or> \<not> (400 \<le> status_code resp \<and> status_code resp < 600)
                        \<and> body resp = Some JNull)))"
proof -
  define url where "url = get_url (''python3Packages/'' @ package_name) s"
  define c where "c = length (sent s)"
  define res where "res = run_result env ''GET'' url c 5"
  have r: "r = (case res of
        Inl e \<Rightarrow> get_except e
      | Inr resp \<Rightarrow> (case body resp of None \<Rightarrow> Inl JSONDecodeError | Some j \<Rightarrow> Inr j))"
    using assms http_request_default_fst [of env "''GET''" url "[]" True NoPayload s]
    by (simp add: get_python_package_eq url_def res_def c_def)
  have s': "s' = snd (http_request_default env ''GET'' url [] True NoPayload s)"
    using assms by (simp add: get_python_package_eq url_def)
  have since: "sent_since s s'
     = map (issue ''GET'' url [(''Authorization'', ''Bearer '' @ access_token s)]
              HTTP_REQUEST_TIMEOUT NoPayload)
           (attempt_times env c (max (now s) (next_request_time s)) 5)"
    unfolding s' c_def using sent_since_http_request_default [of s env "''GET''" url "[]" True]
    by simp
  have len: "length (sent_since s s') = run_length env c 5"
    by (simp add: since length_attempt_times)
  have 1: "\<forall>q \<in> set (sent_since s s').
            req_method q = ''GET''
            \<and> req_url q = get_url (''python3Packages/'' @ package_name) s"
    by (auto simp: since issue_def url_def)
  have stop: "res = settle (Responds resp)"
    if "i < length (sent_since s s')" "outcome (server env (c + i)) = Responds resp"
       "\<not> transient_status (status_code resp)" for i resp
    using that run_length_stops [of i env c 5 "''GET''" url]
    by (simp add: len res_def)
  have 2: "\<forall>i resp. i < length (sent_since s s')
              \<and> outcome (server env (length (sent s) + i)) = Responds resp
              \<and> \<not> transient_status (status_code resp)
            \<longrightarrow> r = (if status_code resp = 404 then Inr JNull
                     else if 400 \<le> status_code resp \<and> status_code resp < 600
                       then Inl (HTTPError resp)
                     else (case body resp of
                             None \<Rightarrow> Inl JSONDecodeError
                           | Some package_data \<Rightarrow> Inr package_data))"
    using stop by (auto simp: r c_def raise_for_status_def HTTPStatus_defs)
  have 3: "\<exists>i resp. i < length (sent_since s s')
                \<and> outcome (server env (length (sent s) + i)) = Responds resp
                \<and> (status_code resp = 404
                     \<or> \<not> (400 \<le> status_code resp \<and> status_code resp < 600)
                        \<and> body resp = Some JNull)"
    if none: "r = Inr JNull"
  proof -
    from run_result_cases [of env "''GET''" url c 5]
    obtain i where i: "run_length env c 5 = Suc i"
      and final: "res = settle (outcome (server env (c + i)))"
      using none by (auto simp: r res_def)
    show ?thesis
    proof (cases "outcome (server env (c + i))")
      case (Raises e)
      with final none show ?thesis
        by (simp add: r)
    next
      case (Responds resp)
      with final none have "status_code resp = 404
                     \<or> \<not> (400 \<le> status_code resp \<and> status_code resp < 600)
                        \<and> body resp = Some JNull"
        by (auto simp: r raise_for_status_def HTTPStatus_defs
                 split: if_splits option.splits)
      with Responds i show ?thesis
        by (intro exI [of _ i] exI [of _ resp]) (simp add: len c_def)
    qed
  qed
  from 1 2 3 show ?thesis by blast
qed

theorem get_python_package_result_witness:
  "fst (get_python_package (env_status 404) ''pip'' test_session) = Inr JNull
   \<and> outcome (server (env_status 404) 0) = Responds \<lparr>status_code = 404, body = None\<rparr>
   \<and> fst (get_python_package (env_status 403) ''pip'' test_session)
       = Inl (HTTPError \<lparr>status_code = 403, body = None\<rparr>)
   \<and> fst (get_python_package env_package ''pip'' test_session)
       = Inr (JObj [(''name'', JStr ''pip'')])
   \<and> map req_url (sent (snd (get_python_package (env_status 404) ''pip'' test_session)))
       = [''https://management.azure.com/subscriptions/x/python3Packages/pip?api-version=2018-06-30'']"
  using get_python_package_result [of "env_status 404" "''pip''" test_session,
      OF surjective_pairing]
  by (simp add: get_python_package_fst get_python_package_sent run_numerals issue_def
        env_status_def env_package_def test_defs transient_status_iff raise_for_status_def
        HTTPStatus_defs get_url_def posixpath_join_def
        join_step_def AZURE_MANAGEMENT_URL_def DEFAULT_API_VERSION_def)

text \<open>
  C9 as stated fails: a response with status 200 whose JSON document is \<^verbatim>\<open>null\<close> gives
  the result \<^verbatim>\<open>None\<close> without any 404.
\<close>

theorem get_python_package_none_without_404:
  "fst (get_python_package env_null ''pip'' test_session) = Inr JNull
   \<and> length (sent (snd (get_python_package env_null ''pip'' test_session))) = 1
   \<and> outcome (server env_null 0) = Responds \<lparr>status_code = 200, body = Some JNull\<rparr>"
  by (simp add: get_python_package_fst get_python_package_sent run_numerals
        env_null_def test_defs transient_status_iff raise_for_status_def)

text \<open>
  C7, as the code has it. No operation of the session or of the executors changes an
  attribute that the constructors set, the next-request time apart: the account ID and
  the access token of the session, the script path and the requirements file of an
  executor (whose session is the one it was built with).
\<close>

theorem attributes_unchanged:
  fixes s :: "'a state_scheme" and x :: "'b executor_scheme"
  shows "session_attributes (snd (http_request env m u h a retries tm kw s))
           = session_attributes s
       \<and> session_attributes (snd (upload_powershell_module env name path s))
           = session_attributes s
       \<and> session_attributes (snd (upload_python_package env name path s))
           = session_attributes s
       \<and> session_attributes (snd (get_python_package env name s)) = session_attributes s
       \<and> session_attributes (snd (delete_python_package env name s)) = session_attributes s
       \<and> executor_attributes (snd (powershell_execute_script env count x))
           = executor_attributes x
       \<and> executor_attributes (snd (python_execute_script env count x))
           = executor_attributes x"
proof -
  have "same_attributes s (snd (http_request env m u h a retries tm kw s))"
    by (rule same_attributes_snd) (rule same_http_request)
  moreover have "same_attributes s (snd (upload_powershell_module env name path s))"
    by (rule same_attributes_snd) (rule same_upload_powershell_module)
  moreover have "same_attributes s (snd (upload_python_package env name path s))"
    by (rule same_attributes_snd) (rule same_upload_python_package)
  moreover have "same_attributes s (snd (get_python_package env name s))"
    by (rule same_attributes_snd) (rule same_get_python_package)
  moreover have "same_attributes s (snd (delete_python_package env name s))"
    by (rule same_attributes_snd) (rule same_delete_python_package)
  moreover have "same_attributes x (snd (powershell_execute_script env count x))"
    by (rule same_attributes_snd) (rule same_powershell_execute_script)
  moreover have "same_attributes x (snd (python_execute_script env count x))"
    by (rule same_attributes_snd) (rule same_python_execute_script)
  ultimately show ?thesis
    by (simp add: same_session_attributes same_executor_attributes)
qed

theorem attributes_unchanged_witness:
  "session_attributes
     (snd (upload_python_package env_upload ''package'' ''dummy.whl'' test_session_with_whl))
     = (''/subscriptions/x'', ''token'')
   \<and> next_request_time
       (snd (upload_python_package env_upload ''package'' ''dummy.whl'' test_session_with_whl))
     = 3 / 2"
  using attributes_unchanged [of env_upload _ _ _ _ _ _ _ test_session_with_whl
      "''package''" "''dummy.whl''"]
  by (simp add: session_attributes_def upload_python_package_def
        upload_file_to_temp_storage_def Let_def http_request_default_eq response_json_def
        run_numerals env_upload_def test_session_with_whl_def test_defs
        transient_status_iff raise_for_status_def TIME_BETWEEN_REQUESTS_SECONDS_def)

text \<open>
  C7 as stated fails: \<^verbatim>\<open>__upload_file_to_temp_storage\<close> assigns the attribute
  \<^verbatim>\<open>__current_temp_storage_url\<close> of the session on every upload.
\<close>

theorem upload_assigns_temp_storage_url:
  "current_temp_storage_url test_session_with_whl = None
   \<and> current_temp_storage_url
        (snd (upload_python_package env_upload ''package'' ''dummy.whl'' test_session_with_whl))
       = Some (JStr ''https://blob/sas'')
   \<and> fst (upload_python_package env_upload ''package'' ''dummy.whl'' test_session_with_whl)
       = Inr ()"
  by (simp add: upload_file_to_temp_storage_url upload_python_package_def
        upload_file_to_temp_storage_def Let_def http_request_default_eq response_json_def
        run_numerals env_upload_def test_session_with_whl_def test_defs
        transient_status_iff raise_for_status_def)

text \<open>
  C3. Against a server that reports a provisioning state at every poll,
  \<^verbatim>\<open>_wait_for_package_upload\<close> sends \<^verbatim>\<open>GET\<close> requests to the package's URL, each one
  \<^verbatim>\<open>UPLOAD_STATE_CHECK_INTERVAL_SECONDS\<close> after the reply to the one before, and goes on
  only while the reported state is neither Succeeded nor Failed. It ends in exactly one
  of three ways (the three results are different values): it returns when the last state
  polled is Succeeded; it raises the \<^verbatim>\<open>CloudMinerException\<close> with the server's error message
  when that state is Failed; it raises the \<^verbatim>\<open>CloudMinerException\<close> of the timeout when the
  clock has reached the end time and no state polled was terminal. It makes at most
  \<open>\<lceil>timeout / interval\<rceil>\<close> polls; the function is total.
\<close>

theorem wait_for_package_upload_outcomes:
  assumes "\<forall>n. reports_state env n"
    and "wait_for_package_upload env package_name timeout_seconds s = (r, s')"
  shows "(\<forall>q \<in> set (sent_since s s').
            req_method q = ''GET''
            \<and> req_url q = get_url (''python3Packages/'' @ package_name) s)
       \<and> (\<forall>i. Suc i < length (sent_since s s') \<longrightarrow>
             req_time (sent_since s s' ! Suc i)
               = req_time (sent_since s s' ! i)
                 + real (latency_ms (server env (length (sent s) + i))) / 1000
                 + UPLOAD_STATE_CHECK_INTERVAL_SECONDS)
       \<and> (\<forall>i. Suc i < length (sent_since s s') \<longrightarrow>
             \<not> state_is (reported_state env (length (sent s) + i)) SUCCEEDED
             \<and> \<not> state_is (reported_state env (length (sent s) + i)) FAILED)
       \<and> ((r = Inr ()
            \<and> (\<exists>i. length (sent_since s s') = Suc i
                  \<and> state_is (reported_state env (length (sent s) + i)) SUCCEEDED))
          \<or> (\<exists>i. r = Inl (CloudMinerException
                            (UploadFailed (reported_error env (length (sent s) + i))))
                  \<and> length (sent_since s s') = Suc i
                  \<and> state_is (reported_state env (length (sent s) + i)) FAILED)
          \<or> (r = Inl (CloudMinerException UploadTimedOut)
              \<and> now s + timeout_seconds \<le> now s'
              \<and> (\<forall>i<length (sent_since s s').
                    \<not> state_is (reported_state env (length (sent s) + i)) SUCCEEDED
                    \<and> \<not> state_is (reported_state env (length (sent s) + i)) FAILED)))
       \<and> length (sent_since s s') \<le> nat \<lceil>timeout_seconds / UPLOAD_STATE_CHECK_INTERVAL_SECONDS\<rceil>"
proof -
  have "poll_run env package_name (now s + timeout_seconds) s r s'"
    using wait_rounds_poll_run [OF assms(1), of package_name "now s + timeout_seconds" s]
      assms(2)
    by (simp add: wait_for_package_upload_def Let_def)
  then show ?thesis
    unfolding poll_run_def terminal_def
    using polls_bound [of "length (sent_since s s')" timeout_seconds]
    by (simp del: wait_rounds.simps)
qed

text \<open>
  Three runs with a timeout of 30 s: Creating, then Succeeded; Failed at once; Creating
  for ever, which times out after the polls at 0 and at 20.1.
\<close>

theorem wait_for_package_upload_outcomes_witness:
  "fst (wait_for_package_upload (env_states [''Creating''] ''Succeeded'') ''pip'' 30
          test_executor) = Inr ()
   \<and> map req_time (sent (snd (wait_for_package_upload
          (env_states [''Creating''] ''Succeeded'') ''pip'' 30 test_executor)))
       = [0, 201 / 10]
   \<and> fst (wait_for_package_upload (env_states [] ''Failed'') ''pip'' 30 test_executor)
       = Inl (CloudMinerException (UploadFailed (JStr ''import failed'')))
   \<and> fst (wait_for_package_upload (env_states [] ''Creating'') ''pip'' 30 test_executor)
       = Inl (CloudMinerException UploadTimedOut)
   \<and> map req_time (sent (snd (wait_for_package_upload
          (env_states [] ''Creating'') ''pip'' 30 test_executor)))
       = [0, 201 / 10]"
  using wait_for_package_upload_outcomes [where env = "env_states [''Creating''] ''Succeeded''"
      and package_name = "''pip''" and timeout_seconds = 30 and s = test_executor,
      OF _ surjective_pairing]
  by (simp add: wait_for_package_upload_def Let_def wait_rounds_env_states
        reports_env_states reported_env_states latency_env_states state_is_def member_eq_str_def issue_def
        test_executor_def new_executor_def test_defs
        UPLOAD_STATE_CHECK_INTERVAL_SECONDS_def TIME_BETWEEN_REQUESTS_SECONDS_def
        del: wait_rounds.simps)






end
